theory Spec2Isabelle
  imports Complex_Main "HOL-Library.Word"
begin

section \<open>World of Rigid Bodies (WoRB): a shallow embedding\<close>

text \<open>
  The C++ sources are embedded function by function.  A \<^verbatim>\<open>double\<close> is modelled
  as a \<^typ>\<open>real\<close> (exact arithmetic: no rounding, no infinities, no NaN), an
  \<^verbatim>\<open>unsigned\<close> as a \<^typ>\<open>32 word\<close>, a pointer to a rigid body as a
  \<^typ>\<open>nat option\<close> (\<open>None\<close> is the null pointer) into a store of bodies.
  A division whose divisor the source does not test, and a dereference of a pointer
  that may be null, are results of a sum type with an \<open>Inl\<close> error.
\<close>

subsection \<open>Quaternion.h\<close>

record Quaternion =
  qw :: real
  qx :: real
  qy :: real
  qz :: real

definition Quat :: "real \<Rightarrow> real \<Rightarrow> real \<Rightarrow> real \<Rightarrow> Quaternion" where
  "Quat a b c d = \<lparr> qw = a, qx = b, qy = c, qz = d \<rparr>"

text \<open>\<^verbatim>\<open>Quaternion()\<close>, \<^verbatim>\<open>Quaternion( double scalar )\<close> and \<^verbatim>\<open>SpatialVector( x, y, z )\<close>.\<close>

definition Quaternion_zero :: Quaternion where
  "Quaternion_zero = Quat 0 0 0 0"

definition Quaternion_scalar :: "real \<Rightarrow> Quaternion" where
  "Quaternion_scalar s = Quat s 0 0 0"

definition SpatialVector :: "real \<Rightarrow> real \<Rightarrow> real \<Rightarrow> Quaternion" where
  "SpatialVector a b c = Quat 0 a b c"

definition SquaredNorm :: "Quaternion \<Rightarrow> real" where
  "SquaredNorm q = qw q * qw q + qx q * qx q + qy q * qy q + qz q * qz q"

definition ImSquaredNorm :: "Quaternion \<Rightarrow> real" where
  "ImSquaredNorm q = qx q * qx q + qy q * qy q + qz q * qz q"

definition Norm :: "Quaternion \<Rightarrow> real" where
  "Norm q = sqrt (SquaredNorm q)"

definition ImNorm :: "Quaternion \<Rightarrow> real" where
  "ImNorm q = sqrt (ImSquaredNorm q)"

definition q_neg :: "Quaternion \<Rightarrow> Quaternion" where
  "q_neg q = Quat (- qw q) (- qx q) (- qy q) (- qz q)"

definition q_add :: "Quaternion \<Rightarrow> Quaternion \<Rightarrow> Quaternion" where
  "q_add p q = Quat (qw p + qw q) (qx p + qx q) (qy p + qy q) (qz p + qz q)"

definition q_sub :: "Quaternion \<Rightarrow> Quaternion \<Rightarrow> Quaternion" where
  "q_sub p q = Quat (qw p - qw q) (qx p - qx q) (qy p - qy q) (qz p - qz q)"

text \<open>The Hamilton product \<^verbatim>\<open>operator * ( const Quaternion& )\<close>.\<close>

definition q_mul :: "Quaternion \<Rightarrow> Quaternion \<Rightarrow> Quaternion" where
  "q_mul p q = Quat
     (qw p * qw q - qx p * qx q - qy p * qy q - qz p * qz q)
     (qw p * qx q + qx p * qw q + qy p * qz q - qz p * qy q)
     (qw p * qy q + qy p * qw q + qz p * qx q - qx p * qz q)
     (qw p * qz q + qz p * qw q + qx p * qy q - qy p * qx q)"

text \<open>\<^verbatim>\<open>operator * ( double )\<close> and the free \<^verbatim>\<open>operator * ( double, Quaternion )\<close>.\<close>

definition q_scale :: "Quaternion \<Rightarrow> real \<Rightarrow> Quaternion" where
  "q_scale q v = Quat (qw q * v) (qx q * v) (qy q * v) (qz q * v)"

definition scale_q :: "real \<Rightarrow> Quaternion \<Rightarrow> Quaternion" where
  "scale_q s q = Quat (s * qw q) (s * qx q) (s * qy q) (s * qz q)"

definition ComponentWiseProduct :: "Quaternion \<Rightarrow> Quaternion \<Rightarrow> Quaternion" where
  "ComponentWiseProduct p q = Quat (qw p * qw q) (qx p * qx q) (qy p * qy q) (qz p * qz q)"

definition Cross :: "Quaternion \<Rightarrow> Quaternion \<Rightarrow> Quaternion" where
  "Cross p q = Quat 0
     (qy p * qz q - qz p * qy q)
     (qz p * qx q - qx p * qz q)
     (qx p * qy q - qy p * qx q)"

definition Dot :: "Quaternion \<Rightarrow> Quaternion \<Rightarrow> real" where
  "Dot p q = qx p * qx q + qy p * qy q + qz p * qz q"

text \<open>
  \<^verbatim>\<open>Normalize( double length = 1.0 )\<close>: a zero quaternion gets \<open>w = length\<close>,
  any other is scaled by \<open>length / norm\<close>.
\<close>

definition Normalize :: "real \<Rightarrow> Quaternion \<Rightarrow> Quaternion" where
  "Normalize len q =
     (let norm = Norm q in
      if norm = 0 then q\<lparr> qw := len \<rparr> else q_scale q (len / norm))"

subsection \<open>QTensor.h\<close>

record QTensor =
  m_xx :: real  m_yx :: real  m_zx :: real  m_wx :: real
  m_xy :: real  m_yy :: real  m_zy :: real  m_wy :: real
  m_xz :: real  m_yz :: real  m_zz :: real  m_wz :: real
  m_xw :: real  m_yw :: real  m_zw :: real  m_ww :: real

definition SetComponents :: "real \<Rightarrow> QTensor" where
  "SetComponents v = \<lparr>
     m_xx = v, m_yx = v, m_zx = v, m_wx = v,
     m_xy = v, m_yy = v, m_zy = v, m_wy = v,
     m_xz = v, m_yz = v, m_zz = v, m_wz = v,
     m_xw = v, m_yw = v, m_zw = v, m_ww = v \<rparr>"

text \<open>The constructor \<^verbatim>\<open>QTensor( Initializer )\<close> for its three initialised kinds.\<close>

definition QTensor_Normalized :: QTensor where
  "QTensor_Normalized = (SetComponents 0)\<lparr> m_ww := 1 \<rparr>"

definition QTensor_Zero :: QTensor where
  "QTensor_Zero = SetComponents 0"

definition QTensor_Identity :: QTensor where
  "QTensor_Identity = (SetComponents 0)\<lparr> m_xx := 1, m_yy := 1, m_zz := 1, m_ww := 1 \<rparr>"

text \<open>\<^verbatim>\<open>QTensor( double xx, double yy, double zz, double ww = 1.0 )\<close>.\<close>

definition QTensor_diag :: "real \<Rightarrow> real \<Rightarrow> real \<Rightarrow> real \<Rightarrow> QTensor" where
  "QTensor_diag a b c d = (SetComponents 0)\<lparr> m_xx := a, m_yy := b, m_zz := c, m_ww := d \<rparr>"


definition SetColumnVectors :: "Quaternion \<Rightarrow> Quaternion \<Rightarrow> Quaternion \<Rightarrow> QTensor" where
  "SetColumnVectors v1 v2 v3 = \<lparr>
     m_xx = qx v1, m_yx = qy v1, m_zx = qz v1, m_wx = 0,
     m_xy = qx v2, m_yy = qy v2, m_zy = qz v2, m_wy = 0,
     m_xz = qx v3, m_yz = qy v3, m_zz = qz v3, m_wz = 0,
     m_xw = 0, m_yw = 0, m_zw = 0, m_ww = 1 \<rparr>"

definition SetSkewSymmetric :: "Quaternion \<Rightarrow> QTensor" where
  "SetSkewSymmetric q = \<lparr>
     m_xx = 0, m_yx = qz q, m_zx = - qy q, m_wx = 0,
     m_xy = - qz q, m_yy = 0, m_zy = qx q, m_wy = 0,
     m_xz = qy q, m_yz = - qx q, m_zz = 0, m_wz = 0,
     m_xw = 0, m_yw = 0, m_zw = 0, m_ww = 0 \<rparr>"

text \<open>Shoemake's matrix of an orientation, with the translation in column 3.\<close>

definition SetFromOrientationAndPosition :: "Quaternion \<Rightarrow> Quaternion \<Rightarrow> QTensor" where
  "SetFromOrientationAndPosition q translate = \<lparr>
     m_xx = 1 - 2 * (qy q * qy q + qz q * qz q),
     m_yx = 2 * (qx q * qy q + qw q * qz q),
     m_zx = 2 * (qx q * qz q - qw q * qy q),
     m_wx = 0,
     m_xy = 2 * (qx q * qy q - qw q * qz q),
     m_yy = 1 - 2 * (qx q * qx q + qz q * qz q),
     m_zy = 2 * (qy q * qz q + qw q * qx q),
     m_wy = 0,
     m_xz = 2 * (qx q * qz q + qw q * qy q),
     m_yz = 2 * (qy q * qz q - qw q * qx q),
     m_zz = 1 - 2 * (qx q * qx q + qy q * qy q),
     m_wz = 0,
     m_xw = qx translate, m_yw = qy translate, m_zw = qz translate, m_ww = 1 \<rparr>"

text \<open>The loops over \<^verbatim>\<open>data[i]\<close> of the unary minus and of \<^verbatim>\<open>operator +=\<close>.\<close>

definition QTensor_neg :: "QTensor \<Rightarrow> QTensor" where
  "QTensor_neg T = \<lparr>
     m_xx = - m_xx T, m_yx = - m_yx T, m_zx = - m_zx T, m_wx = - m_wx T,
     m_xy = - m_xy T, m_yy = - m_yy T, m_zy = - m_zy T, m_wy = - m_wy T,
     m_xz = - m_xz T, m_yz = - m_yz T, m_zz = - m_zz T, m_wz = - m_wz T,
     m_xw = - m_xw T, m_yw = - m_yw T, m_zw = - m_zw T, m_ww = - m_ww T \<rparr>"

definition QTensor_add :: "QTensor \<Rightarrow> QTensor \<Rightarrow> QTensor" where
  "QTensor_add M T = \<lparr>
     m_xx = m_xx M + m_xx T, m_yx = m_yx M + m_yx T, m_zx = m_zx M + m_zx T, m_wx = m_wx M + m_wx T,
     m_xy = m_xy M + m_xy T, m_yy = m_yy M + m_yy T, m_zy = m_zy M + m_zy T, m_wy = m_wy M + m_wy T,
     m_xz = m_xz M + m_xz T, m_yz = m_yz M + m_yz T, m_zz = m_zz M + m_zz T, m_wz = m_wz M + m_wz T,
     m_xw = m_xw M + m_xw T, m_yw = m_yw M + m_yw T, m_zw = m_zw M + m_zw T, m_ww = m_ww M + m_ww T \<rparr>"

text \<open>\<^verbatim>\<open>operator * ( const QTensor& )\<close>: the product of two affine transforms.\<close>

definition QTensor_mul :: "QTensor \<Rightarrow> QTensor \<Rightarrow> QTensor" where
  "QTensor_mul M T = \<lparr>
     m_xx = m_xx M * m_xx T + m_xy M * m_yx T + m_xz M * m_zx T,
     m_yx = m_yx M * m_xx T + m_yy M * m_yx T + m_yz M * m_zx T,
     m_zx = m_zx M * m_xx T + m_zy M * m_yx T + m_zz M * m_zx T,
     m_wx = 0,
     m_xy = m_xx M * m_xy T + m_xy M * m_yy T + m_xz M * m_zy T,
     m_yy = m_yx M * m_xy T + m_yy M * m_yy T + m_yz M * m_zy T,
     m_zy = m_zx M * m_xy T + m_zy M * m_yy T + m_zz M * m_zy T,
     m_wy = 0,
     m_xz = m_xx M * m_xz T + m_xy M * m_yz T + m_xz M * m_zz T,
     m_yz = m_yx M * m_xz T + m_yy M * m_yz T + m_yz M * m_zz T,
     m_zz = m_zx M * m_xz T + m_zy M * m_yz T + m_zz M * m_zz T,
     m_wz = 0,
     m_xw = m_xx M * m_xw T + m_xy M * m_yw T + m_xz M * m_zw T + m_xw M,
     m_yw = m_yx M * m_xw T + m_yy M * m_yw T + m_yz M * m_zw T + m_yw M,
     m_zw = m_zx M * m_xw T + m_zy M * m_yw T + m_zz M * m_zw T + m_zw M,
     m_ww = 1 \<rparr>"

text \<open>
  \<^verbatim>\<open>operator * ( const Quaternion& )\<close> and \<^verbatim>\<open>operator () ( const Quaternion& )\<close>
  have the same body: the vector part transformed, the translation added.
\<close>

definition QTensor_apply :: "QTensor \<Rightarrow> Quaternion \<Rightarrow> Quaternion" where
  "QTensor_apply M q = Quat 0
     (qx q * m_xx M + qy q * m_xy M + qz q * m_xz M + m_xw M)
     (qx q * m_yx M + qy q * m_yy M + qz q * m_yz M + m_yw M)
     (qx q * m_zx M + qy q * m_zy M + qz q * m_zz M + m_zw M)"

definition TransformInverse :: "QTensor \<Rightarrow> Quaternion \<Rightarrow> Quaternion" where
  "TransformInverse M q =
     (let del = q_sub q (Quat 0 (m_xw M) (m_yw M) (m_zw M)) in
      Quat 0
        (qx del * m_xx M + qy del * m_yx M + qz del * m_zx M)
        (qx del * m_xy M + qy del * m_yy M + qz del * m_zy M)
        (qx del * m_xz M + qy del * m_yz M + qz del * m_zz M))"

definition Determinant :: "QTensor \<Rightarrow> real" where
  "Determinant T =
     - m_zx T * m_yy T * m_xz T
     + m_yx T * m_zy T * m_xz T
     + m_zx T * m_xy T * m_yz T
     - m_xx T * m_zy T * m_yz T
     - m_yx T * m_xy T * m_zz T
     + m_xx T * m_yy T * m_zz T"

text \<open>
  Three methods build their result in a \<^verbatim>\<open>QTensor( Uninitialized )\<close> and do not
  assign all of it.  The argument \<open>u\<close> of their models is the content of that
  uninitialised object: the components the source leaves alone keep \<open>u\<close>'s values.
  No arithmetic of the engine reads them.
\<close>

text \<open>
  \<^verbatim>\<open>SetInverseOf\<close> on the object \<open>this\<close>: all components zero for a singular
  \<open>T\<close>; otherwise the first three rows are assigned and then all sixteen
  components are divided by the determinant.
\<close>

definition SetInverseOf :: "QTensor \<Rightarrow> QTensor \<Rightarrow> QTensor" where
  "SetInverseOf T this =
     (let det_T = Determinant T in
      if det_T = 0 then SetComponents 0
      else \<lparr>
        m_xx = (- m_zy T * m_yz T + m_yy T * m_zz T) / det_T,
        m_yx = (m_zx T * m_yz T - m_yx T * m_zz T) / det_T,
        m_zx = (- m_zx T * m_yy T + m_yx T * m_zy T) / det_T,
        m_wx = m_wx this / det_T,
        m_xy = (m_zy T * m_xz T - m_xy T * m_zz T) / det_T,
        m_yy = (- m_zx T * m_xz T + m_xx T * m_zz T) / det_T,
        m_zy = (m_zx T * m_xy T - m_xx T * m_zy T) / det_T,
        m_wy = m_wy this / det_T,
        m_xz = (- m_yy T * m_xz T + m_xy T * m_yz T) / det_T,
        m_yz = (m_yx T * m_xz T - m_xx T * m_yz T) / det_T,
        m_zz = (- m_yx T * m_xy T + m_xx T * m_yy T) / det_T,
        m_wz = m_wz this / det_T,
        m_xw = (m_zy T * m_yz T * m_xw T
                - m_yy T * m_zz T * m_xw T
                - m_zy T * m_xz T * m_yw T
                + m_xy T * m_zz T * m_yw T
                + m_yy T * m_xz T * m_zw T
                - m_xy T * m_yz T * m_zw T) / det_T,
        m_yw = (- m_zx T * m_yz T * m_xw T
                + m_yx T * m_zz T * m_xw T
                + m_zx T * m_xz T * m_yw T
                - m_xx T * m_zz T * m_yw T
                - m_yx T * m_xz T * m_zw T
                + m_xx T * m_yz T * m_zw T) / det_T,
        m_zw = (m_zx T * m_yy T * m_xw T
                - m_yx T * m_zy T * m_xw T
                - m_zx T * m_xy T * m_yw T
                + m_xx T * m_zy T * m_yw T
                + m_yx T * m_xy T * m_zw T
                - m_xx T * m_yy T * m_zw T) / det_T,
        m_ww = m_ww this / det_T \<rparr>)"

text \<open>\<^verbatim>\<open>Inverse ()\<close> is \<^verbatim>\<open>QTensor( Uninitialized ).SetInverseOf( *this )\<close>.\<close>

definition Inverse :: "QTensor \<Rightarrow> QTensor \<Rightarrow> QTensor" where
  "Inverse u T = SetInverseOf T u"

text \<open>
  \<^verbatim>\<open>operator () ( const QTensor& T )\<close>, the change of frame \<open>M T M\<^sup>T\<close>.  Its last
  statements are \<^verbatim>\<open>result.m.wx = result.m.wy = result.m.ww = 0; result.m.ww = 1;\<close>,
  so \<open>wz\<close> is not assigned.
\<close>

definition QTensor_transform :: "QTensor \<Rightarrow> QTensor \<Rightarrow> QTensor \<Rightarrow> QTensor" where
  "QTensor_transform u M T =
     (let t_xx = m_xx M * m_xx T + m_xy M * m_yx T + m_xz M * m_zx T;
          t_xy = m_xx M * m_xy T + m_xy M * m_yy T + m_xz M * m_zy T;
          t_xz = m_xx M * m_xz T + m_xy M * m_yz T + m_xz M * m_zz T;
          t_yx = m_yx M * m_xx T + m_yy M * m_yx T + m_yz M * m_zx T;
          t_yy = m_yx M * m_xy T + m_yy M * m_yy T + m_yz M * m_zy T;
          t_yz = m_yx M * m_xz T + m_yy M * m_yz T + m_yz M * m_zz T;
          t_zx = m_zx M * m_xx T + m_zy M * m_yx T + m_zz M * m_zx T;
          t_zy = m_zx M * m_xy T + m_zy M * m_yy T + m_zz M * m_zy T;
          t_zz = m_zx M * m_xz T + m_zy M * m_yz T + m_zz M * m_zz T
      in \<lparr>
        m_xx = t_xx * m_xx M + t_xy * m_xy M + t_xz * m_xz M,
        m_yx = t_yx * m_xx M + t_yy * m_xy M + t_yz * m_xz M,
        m_zx = t_zx * m_xx M + t_zy * m_xy M + t_zz * m_xz M,
        m_wx = 0,
        m_xy = t_xx * m_yx M + t_xy * m_yy M + t_xz * m_yz M,
        m_yy = t_yx * m_yx M + t_yy * m_yy M + t_yz * m_yz M,
        m_zy = t_zx * m_yx M + t_zy * m_yy M + t_zz * m_yz M,
        m_wy = 0,
        m_xz = t_xx * m_zx M + t_xy * m_zy M + t_xz * m_zz M,
        m_yz = t_yx * m_zx M + t_yy * m_zy M + t_yz * m_zz M,
        m_zz = t_zx * m_zx M + t_zy * m_zy M + t_zz * m_zz M,
        m_wz = m_wz u,
        m_xw = 0, m_yw = 0, m_zw = 0, m_ww = 1 \<rparr>)"

text \<open>\<^verbatim>\<open>TransformInverse( const QTensor& T )\<close>, the change of frame \<open>M\<^sup>T T M\<close>.\<close>

definition TransformInverse_tensor :: "QTensor \<Rightarrow> QTensor \<Rightarrow> QTensor \<Rightarrow> QTensor" where
  "TransformInverse_tensor u M T =
     (let t_xx = m_xx M * m_xx T + m_yx M * m_yx T + m_zx M * m_zx T;
          t_xy = m_xx M * m_xy T + m_yx M * m_yy T + m_zx M * m_zy T;
          t_xz = m_xx M * m_xz T + m_yx M * m_yz T + m_zx M * m_zz T;
          t_yx = m_xy M * m_xx T + m_yy M * m_yx T + m_zy M * m_zx T;
          t_yy = m_xy M * m_xy T + m_yy M * m_yy T + m_zy M * m_zy T;
          t_yz = m_xy M * m_xz T + m_yy M * m_yz T + m_zy M * m_zz T;
          t_zx = m_xz M * m_xx T + m_yz M * m_yx T + m_zz M * m_zx T;
          t_zy = m_xz M * m_xy T + m_yz M * m_yy T + m_zz M * m_zy T;
          t_zz = m_xz M * m_xz T + m_yz M * m_yz T + m_zz M * m_zz T
      in \<lparr>
        m_xx = t_xx * m_xx M + t_xy * m_yx M + t_xz * m_zx M,
        m_yx = t_yx * m_xx M + t_yy * m_yx M + t_yz * m_zx M,
        m_zx = t_zx * m_xx M + t_zy * m_yx M + t_zz * m_zx M,
        m_wx = 0,
        m_xy = t_xx * m_xy M + t_xy * m_yy M + t_xz * m_zy M,
        m_yy = t_yx * m_xy M + t_yy * m_yy M + t_yz * m_zy M,
        m_zy = t_zx * m_xy M + t_zy * m_yy M + t_zz * m_zy M,
        m_wy = 0,
        m_xz = t_xx * m_xz M + t_xy * m_yz M + t_xz * m_zz M,
        m_yz = t_yx * m_xz M + t_yy * m_yz M + t_yz * m_zz M,
        m_zz = t_zx * m_xz M + t_zy * m_yz M + t_zz * m_zz M,
        m_wz = m_wz u,
        m_xw = 0, m_yw = 0, m_zw = 0, m_ww = 1 \<rparr>)"

subsection \<open>RigidBody.h\<close>

record RigidBody =
  InverseMass :: real
  InverseInertiaBody :: QTensor
  Position :: Quaternion
  Orientation :: Quaternion
  LinearMomentum :: Quaternion
  AngularMomentum :: Quaternion
  ToWorld :: QTensor
  InverseInertiaWorld :: QTensor
  Velocity :: Quaternion
  AngularVelocity :: Quaternion
  TotalAngularMomentum :: Quaternion
  KineticEnergy :: real
  PotentialEnergy :: real
  AverageKineticEnergy :: real
  KineticEnergyThreshold :: real
  KineticEnergyDamping :: bool
  Force :: Quaternion
  Torque :: Quaternion
  IsActive :: bool
  CanBeDeactivated :: bool

text \<open>The default constructor \<^verbatim>\<open>RigidBody ()\<close>.\<close>

definition RigidBody_new :: RigidBody where
  "RigidBody_new = \<lparr>
     InverseMass = 0,
     InverseInertiaBody = QTensor_Normalized,
     Position = Quaternion_zero,
     Orientation = Quaternion_zero,
     LinearMomentum = Quaternion_zero,
     AngularMomentum = Quaternion_zero,
     ToWorld = QTensor_Identity,
     InverseInertiaWorld = QTensor_Normalized,
     Velocity = Quaternion_zero,
     AngularVelocity = Quaternion_zero,
     TotalAngularMomentum = Quaternion_zero,
     KineticEnergy = 0,
     PotentialEnergy = 0,
     AverageKineticEnergy = 0,
     KineticEnergyThreshold = 0,
     KineticEnergyDamping = False,
     Force = Quaternion_zero,
     Torque = Quaternion_zero,
     IsActive = False,
     CanBeDeactivated = False \<rparr>"

definition SetupMass :: "real \<Rightarrow> RigidBody \<Rightarrow> RigidBody" where
  "SetupMass mass b = b\<lparr>
     InverseMass := (if mass = 0 then 10 ^ 30 else if mass \<ge> 10 ^ 30 then 0 else 1 / mass),
     KineticEnergyThreshold := 0.3 * mass \<rparr>"

definition Mass :: "RigidBody \<Rightarrow> real" where
  "Mass b = (if InverseMass b = 0 then 10 ^ 30
             else if InverseMass b \<ge> 10 ^ 30 then 0 else 1 / InverseMass b)"


definition Activate :: "RigidBody \<Rightarrow> RigidBody" where
  "Activate b =
     (if \<not> IsActive b
      then b\<lparr> IsActive := True, AverageKineticEnergy := 2 * 0.3 * Mass b \<rparr>
      else b)"

definition Deactivate :: "RigidBody \<Rightarrow> RigidBody" where
  "Deactivate b = b\<lparr>
     IsActive := False,
     LinearMomentum := Quaternion_scalar 0,
     AngularMomentum := Quaternion_scalar 0,
     TotalAngularMomentum := Quaternion_scalar 0,
     Velocity := Quaternion_scalar 0,
     AngularVelocity := Quaternion_scalar 0,
     KineticEnergy := 0,
     Force := Quaternion_scalar 0,
     Torque := Quaternion_scalar 0 \<rparr>"

text \<open>
  \<^verbatim>\<open>CalculateDerivedQuantities( bool fromMomenta = true )\<close>, statement by statement;
  \<open>u\<close> is the uninitialised storage of the tensors it builds.
\<close>

definition CalculateDerivedQuantities :: "QTensor \<Rightarrow> bool \<Rightarrow> RigidBody \<Rightarrow> RigidBody" where
  "CalculateDerivedQuantities u fromMomenta b =
     (let b1 = b\<lparr> Orientation := Normalize 1.0 (Orientation b) \<rparr>;
          b2 = b1\<lparr> ToWorld := SetFromOrientationAndPosition (Orientation b1) (Position b1) \<rparr>;
          b3 = b2\<lparr> InverseInertiaWorld := QTensor_transform u (ToWorld b2) (InverseInertiaBody b2) \<rparr>;
          b4 = (if fromMomenta
                then let c = b3\<lparr> Velocity := scale_q (InverseMass b3) (LinearMomentum b3) \<rparr>
                     in c\<lparr> AngularVelocity :=
                            QTensor_apply (InverseInertiaWorld c) (AngularMomentum c) \<rparr>
                else let c = b3\<lparr> LinearMomentum := scale_q (Mass b3) (Velocity b3) \<rparr>
                     in c\<lparr> AngularMomentum :=
                            QTensor_apply (Inverse u (InverseInertiaWorld c)) (AngularVelocity c) \<rparr>);
          b5 = b4\<lparr> TotalAngularMomentum :=
                     q_add (Cross (Position b4) (LinearMomentum b4)) (AngularMomentum b4) \<rparr>
      in b5\<lparr> KineticEnergy := 0.5 * Dot (Velocity b5) (LinearMomentum b5)
                               + 0.5 * Dot (AngularVelocity b5) (AngularMomentum b5) \<rparr>)"

text \<open>
  \<^verbatim>\<open>DampMomentum\<close>: \<^verbatim>\<open>linearDamping\<close> is the constant 0, so its branch never runs;
  \<^verbatim>\<open>angularDamping\<close> is 0.998.
\<close>

definition DampMomentum :: "real \<Rightarrow> RigidBody \<Rightarrow> RigidBody" where
  "DampMomentum timeStep b =
     (let linearDamping = (0 :: real);
          angularDamping = (0.998 :: real);
          b1 = (if linearDamping > 0
                then b\<lparr> LinearMomentum := q_scale (LinearMomentum b) (linearDamping powr timeStep) \<rparr>
                else b)
      in if angularDamping > 0
         then b1\<lparr> AngularMomentum := q_scale (AngularMomentum b1) (angularDamping powr timeStep) \<rparr>
         else b1)"

text \<open>\<^verbatim>\<open>RigidBody::SolveODE( double h )\<close>, the semi-implicit Euler step of one body.\<close>

definition RigidBody_SolveODE :: "QTensor \<Rightarrow> real \<Rightarrow> RigidBody \<Rightarrow> RigidBody" where
  "RigidBody_SolveODE u h b =
     (if \<not> IsActive b then b
      else
        let b1 = b\<lparr> LinearMomentum := q_add (LinearMomentum b) (q_scale (Force b) h) \<rparr>;
            b2 = b1\<lparr> AngularMomentum := q_add (AngularMomentum b1) (q_scale (Torque b1) h) \<rparr>;
            b3 = (if KineticEnergyDamping b2 then DampMomentum h b2 else b2);
            b4 = b3\<lparr> Velocity := scale_q (InverseMass b3) (LinearMomentum b3) \<rparr>;
            b5 = b4\<lparr> AngularVelocity := QTensor_apply (InverseInertiaWorld b4) (AngularMomentum b4) \<rparr>;
            OrientationDot = q_mul (scale_q 0.5 (AngularVelocity b5)) (Orientation b5);
            b6 = b5\<lparr> Position := q_add (Position b5) (q_scale (Velocity b5) h) \<rparr>;
            b7 = b6\<lparr> Orientation := q_add (Orientation b6) (q_scale OrientationDot h) \<rparr>;
            b8 = CalculateDerivedQuantities u True b7
        in if CanBeDeactivated b8
           then
             let alpha = 0.5 powr h;
                 b9 = b8\<lparr> AverageKineticEnergy :=
                            alpha * AverageKineticEnergy b8 + (1 - alpha) * KineticEnergy b8 \<rparr>
             in if AverageKineticEnergy b9 < KineticEnergyThreshold b9 then Deactivate b9
                else if AverageKineticEnergy b9 > 10 * KineticEnergyThreshold b9
                then b9\<lparr> AverageKineticEnergy := 10 * KineticEnergyThreshold b9 \<rparr>
                else b9
           else b8)"

definition Set_XQVW ::
  "QTensor \<Rightarrow> Quaternion \<Rightarrow> Quaternion \<Rightarrow> Quaternion \<Rightarrow> Quaternion \<Rightarrow> RigidBody \<Rightarrow> RigidBody" where
  "Set_XQVW u X Q V W b =
     CalculateDerivedQuantities u False
       (b\<lparr> Position := X, Orientation := Q, Velocity := V, AngularVelocity := W \<rparr>)"

definition SetMomentOfInertia :: "QTensor \<Rightarrow> RigidBody \<Rightarrow> RigidBody" where
  "SetMomentOfInertia I_body b =
     b\<lparr> InverseInertiaBody := SetInverseOf I_body (InverseInertiaBody b) \<rparr>"

definition ClearAccumulators :: "RigidBody \<Rightarrow> RigidBody" where
  "ClearAccumulators b =
     b\<lparr> Force := Quaternion_scalar 0, Torque := Quaternion_scalar 0, PotentialEnergy := 0 \<rparr>"

definition AddExternalForce :: "Quaternion \<Rightarrow> real \<Rightarrow> RigidBody \<Rightarrow> RigidBody" where
  "AddExternalForce force potentialEnergy b =
     b\<lparr> Force := q_add (Force b) force,
        PotentialEnergy := PotentialEnergy b + potentialEnergy \<rparr>"

subsection \<open>Errors of the model\<close>

text \<open>
  \<open>DivisionByZero\<close>: the source divides by a value that is zero (IEEE arithmetic goes
  on with an infinity or a NaN, which the exact reals do not have).
  \<open>NullPointer\<close>: the source dereferences a null body pointer.
  \<open>OutOfBounds\<close>: the source reads or writes outside an array.
\<close>

datatype error = DivisionByZero | NullPointer | OutOfBounds

definition bindE :: "error + 'a \<Rightarrow> ('a \<Rightarrow> error + 'b) \<Rightarrow> error + 'b" where
  "bindE m f = (case m of Inl e \<Rightarrow> Inl e | Inr v \<Rightarrow> f v)"

definition fdiv :: "real \<Rightarrow> real \<Rightarrow> error + real" where
  "fdiv a b = (if b = 0 then Inl DivisionByZero else Inr (a / b))"

subsection \<open>Collision.h and CollisionResolver.h: the contact registry\<close>

record Collision =
  Body_A :: "nat option"
  Body_B :: "nat option"
  C_Position :: Quaternion
  Normal :: Quaternion
  Penetration :: real
  C_Restitution :: real
  C_Friction :: real
  C_ToWorld :: QTensor
  C_Velocity :: Quaternion
  BouncingVelocity :: real
  RelativePosition_0 :: Quaternion
  RelativePosition_1 :: Quaternion

text \<open>
  \<^verbatim>\<open>Collision\<close> has no constructor of its own.  In static storage (the test bed
  keeps its world in a static object) the memory is zero before the members'
  constructors run: null pointers, zero doubles, zero quaternions and the default
  \<^verbatim>\<open>QTensor\<close>.
\<close>

definition Collision_static :: Collision where
  "Collision_static = \<lparr>
     Body_A = None,
     Body_B = None,
     C_Position = Quaternion_zero,
     Normal = Quaternion_zero,
     Penetration = 0,
     C_Restitution = 0,
     C_Friction = 0,
     C_ToWorld = QTensor_Normalized,
     C_Velocity = Quaternion_zero,
     BouncingVelocity = 0,
     RelativePosition_0 = Quaternion_zero,
     RelativePosition_1 = Quaternion_zero \<rparr>"

text \<open>
  \<open>Collisions\<close> is the allocation area the resolver points into, \<open>NextFree\<close> the
  offset of the pointer \<^verbatim>\<open>NextFree\<close> from its start.
\<close>

record CollisionResolver =
  MaxCollisionCount :: "32 word"
  Collisions :: "Collision list"
  NextFree :: nat
  FreeCount :: "32 word"
  CollisionCount :: "32 word"
  Restitution :: real
  Relaxation :: real
  Friction :: real

text \<open>\<^verbatim>\<open>CollisionResolver( Collision* allocationArea, unsigned length )\<close>.\<close>

definition CollisionResolver_new :: "Collision list \<Rightarrow> 32 word \<Rightarrow> CollisionResolver" where
  "CollisionResolver_new allocationArea len = \<lparr>
     MaxCollisionCount = len,
     Collisions = allocationArea,
     NextFree = 0,
     FreeCount = len,
     CollisionCount = 0,
     Restitution = 1.0,
     Relaxation = 0.2,
     Friction = 0.0 \<rparr>"

definition Count :: "CollisionResolver \<Rightarrow> 32 word" where
  "Count r = CollisionCount r"

definition HasSpaceForMoreContacts :: "CollisionResolver \<Rightarrow> bool" where
  "HasSpaceForMoreContacts r = (FreeCount r > 0)"

definition Initialize :: "CollisionResolver \<Rightarrow> CollisionResolver" where
  "Initialize r = r\<lparr> NextFree := 0, FreeCount := MaxCollisionCount r, CollisionCount := 0 \<rparr>"

text \<open>
  \<^verbatim>\<open>RegisterNewContact\<close> returns 0 when \<^verbatim>\<open>FreeCount <= 0\<close>; otherwise it assigns
  seven fields of the contact under \<^verbatim>\<open>NextFree\<close> and advances.  The source does not
  compare \<^verbatim>\<open>NextFree\<close> with the end of the area: a store beyond it is \<open>OutOfBounds\<close>.
\<close>

definition RegisterNewContact ::
  "nat option \<Rightarrow> nat option \<Rightarrow> Quaternion \<Rightarrow> Quaternion \<Rightarrow> real \<Rightarrow>
   CollisionResolver \<Rightarrow> error + (32 word \<times> CollisionResolver)" where
  "RegisterNewContact body_A body_B position normal penetration r =
     (if FreeCount r \<le> 0 then Inr (0, r)
      else if NextFree r \<ge> length (Collisions r) then Inl OutOfBounds
      else Inr (1, r\<lparr>
        Collisions := (Collisions r)[NextFree r := (Collisions r ! NextFree r)\<lparr>
          Body_A := body_A,
          Body_B := body_B,
          C_Position := position,
          Normal := normal,
          Penetration := penetration,
          C_Friction := Friction r,
          C_Restitution := Restitution r \<rparr>],
        NextFree := NextFree r + 1,
        FreeCount := FreeCount r - 1,
        CollisionCount := CollisionCount r + 1 \<rparr>))"

text \<open>A sequence of registration attempts, with the value each attempt returns.\<close>

type_synonym contact_request = "nat option \<times> nat option \<times> Quaternion \<times> Quaternion \<times> real"

fun RegisterAll ::
  "CollisionResolver \<Rightarrow> contact_request list \<Rightarrow> error + (32 word list \<times> CollisionResolver)" where
  "RegisterAll r [] = Inr ([], r)"
| "RegisterAll r ((a, b, X, N, d) # reqs) =
     bindE (RegisterNewContact a b X N d r) (\<lambda>(ret, r').
     bindE (RegisterAll r' reqs) (\<lambda>(rets, r''). Inr (ret # rets, r'')))"

subsection \<open>Geometry.h\<close>

text \<open>
  The class tag \<^verbatim>\<open>GeometryClass\<close> with the members of the four derived classes;
  \<open>Body\<close> is the pointer to the rigid body, null for scenery.
\<close>

datatype Geometry =
    Sphere (Body: "nat option") (Radius: real)
  | Cuboid (Body: "nat option") (HalfExtent: Quaternion)
  | HalfSpace (Body: "nat option") (Direction: Quaternion) (Offset: real)
  | TruePlane (Body: "nat option") (Direction: Quaternion) (Offset: real)

type_synonym Bodies = "nat \<Rightarrow> RigidBody"

text \<open>\<^verbatim>\<open>Column(3)\<close>, the call with the constant index that \<^verbatim>\<open>Position ()\<close> makes.\<close>

definition Column3 :: "QTensor \<Rightarrow> Quaternion" where
  "Column3 T = Quat (m_ww T) (m_xw T) (m_yw T) (m_zw T)"

definition Geometry_Position :: "Bodies \<Rightarrow> Geometry \<Rightarrow> Quaternion" where
  "Geometry_Position bodies g =
     (case Body g of Some b \<Rightarrow> Column3 (ToWorld (bodies b)) | None \<Rightarrow> Quaternion_scalar 0.0)"


subsection \<open>CollisionDetection.cpp: the sphere detectors\<close>

definition Sphere_Check_HalfSpace ::
  "Bodies \<Rightarrow> Geometry \<Rightarrow> Geometry \<Rightarrow> CollisionResolver \<Rightarrow> error + (32 word \<times> CollisionResolver)" where
  "Sphere_Check_HalfSpace bodies this plane owner =
     (if \<not> HasSpaceForMoreContacts owner then Inr (0, owner)
      else
        let position = Geometry_Position bodies this;
            distance = Dot (Direction plane) position - Radius this - Offset plane
        in if distance \<ge> 0 then Inr (0, owner)
           else RegisterNewContact (Body this) None
                  (q_sub position (q_scale (Direction plane) (distance + Radius this)))
                  (Direction plane)
                  (- distance) owner)"

definition Sphere_Check_TruePlane ::
  "Bodies \<Rightarrow> Geometry \<Rightarrow> Geometry \<Rightarrow> CollisionResolver \<Rightarrow> error + (32 word \<times> CollisionResolver)" where
  "Sphere_Check_TruePlane bodies this plane owner =
     (if \<not> HasSpaceForMoreContacts owner then Inr (0, owner)
      else
        let position = Geometry_Position bodies this;
            distance = Dot (Direction plane) position - Offset plane
        in if distance * distance > Radius this * Radius this then Inr (0, owner)
           else
             let normal = (if distance < 0 then q_neg (Direction plane) else Direction plane);
                 penetration = (if distance < 0 then - (- distance) else - distance) + Radius this
             in RegisterNewContact (Body this) None
                  (q_sub position (q_scale (Direction plane) distance))
                  normal penetration owner)"

text \<open>
  Sphere against sphere.  The normal is \<^verbatim>\<open>displacement * ( 1.0 / distance )\<close>; the
  only test before it is \<^verbatim>\<open>distance >= Radius + B.Radius\<close>.
\<close>

definition Sphere_Check_Sphere ::
  "Bodies \<Rightarrow> Geometry \<Rightarrow> Geometry \<Rightarrow> CollisionResolver \<Rightarrow> error + (32 word \<times> CollisionResolver)" where
  "Sphere_Check_Sphere bodies this B owner =
     (if \<not> HasSpaceForMoreContacts owner then Inr (0, owner)
      else
        let position_A = Geometry_Position bodies this;
            position_B = Geometry_Position bodies B;
            displacement = q_sub position_A position_B;
            distance = ImNorm displacement
        in if distance \<ge> Radius this + Radius B then Inr (0, owner)
           else bindE (fdiv 1.0 distance) (\<lambda>inv_distance.
                RegisterNewContact (Body this) (Body B)
                  (q_add position_B (q_scale displacement 0.5))
                  (q_scale displacement inv_distance)
                  (Radius this + Radius B - distance) owner))"

subsection \<open>WoRB.h: the object array of the world\<close>

text \<open>
  \<open>Object\<close> is the array \<^verbatim>\<open>Geometry* Object[ MaxObjects ]\<close>: its length is the
  template parameter \<^verbatim>\<open>MaxObjects\<close>, and the entries from \<open>ObjectCount\<close> on are
  whatever the memory holds.  These two members come first; the record of the world
  extends this one, and the operations on the array are stated for every extension.
\<close>

record ObjectArray =
  ObjectCount :: "32 word"
  Object :: "Geometry list"


definition RemoveObjects :: "'a ObjectArray_scheme \<Rightarrow> 'a ObjectArray_scheme" where
  "RemoveObjects w = w\<lparr> ObjectCount := 0 \<rparr>"


subsection \<open>Collision.h: the derived quantities of a contact\<close>

definition FindOrthonormalBasisAtContactPoint :: "Collision \<Rightarrow> error + Collision" where
  "FindOrthonormalBasisAtContactPoint c =
     (let N = Normal c in
      if \<bar>qx N\<bar> > \<bar>qy N\<bar>
      then bindE (fdiv 1.0 (sqrt (qz N * qz N + qx N * qx N))) (\<lambda>len.
             let tangent_Y = Quat 0 (qz N * len) 0 (- qx N * len);
                 tangent_Z = Normalize 1.0 (Quat 0
                   (qy N * qx tangent_Y)
                   (qz N * qx tangent_Y - qx N * qz tangent_Y)
                   (- qy N * qx tangent_Y))
             in Inr (c\<lparr> C_ToWorld := SetColumnVectors N tangent_Y tangent_Z \<rparr>))
      else bindE (fdiv 1.0 (sqrt (qz N * qz N + qy N * qy N))) (\<lambda>len.
             let tangent_Y = Quat 0 0 (- qz N * len) (qy N * len);
                 tangent_Z = Normalize 1.0 (Quat 0
                   (qy N * qz tangent_Y - qz N * qy tangent_Y)
                   (- qx N * qz tangent_Y)
                   (qx N * qy tangent_Y))
             in Inr (c\<lparr> C_ToWorld := SetColumnVectors N tangent_Y tangent_Z \<rparr>)))"

definition GetRelativeVelocity :: "Collision \<Rightarrow> RigidBody \<Rightarrow> Quaternion \<Rightarrow> real \<Rightarrow> Quaternion" where
  "GetRelativeVelocity c body relativePosition h =
     (let V_world = q_add (Velocity body) (Cross (AngularVelocity body) relativePosition);
          V = TransformInverse (C_ToWorld c) V_world;
          dV_world = q_scale (scale_q (InverseMass body) (Force body)) h;
          dV = (TransformInverse (C_ToWorld c) dV_world)\<lparr> qx := 0 \<rparr>
      in q_add V dV)"

definition GetBouncingVelocity :: "Bodies \<Rightarrow> real \<Rightarrow> Collision \<Rightarrow> error + real" where
  "GetBouncingVelocity bodies h c =
     (case Body_A c of None \<Rightarrow> Inl NullPointer
      | Some a \<Rightarrow>
        let dV_A = (if IsActive (bodies a)
                    then 0 + Dot (q_scale (scale_q (InverseMass (bodies a)) (Force (bodies a))) h)
                                 (Normal c)
                    else 0);
            dV_fromForce_x =
              (case Body_B c of None \<Rightarrow> dV_A
               | Some b \<Rightarrow>
                   if IsActive (bodies b)
                   then dV_A - Dot (q_scale (scale_q (InverseMass (bodies b)) (Force (bodies b))) h)
                                   (Normal c)
                   else dV_A);
            COR = (if \<bar>qx (C_Velocity c) - dV_fromForce_x\<bar> < 0.25 then 0.0 else C_Restitution c)
        in Inr (- (1 + COR) * qx (C_Velocity c) + COR * dV_fromForce_x))"

text \<open>
  \<^verbatim>\<open>Collision::UpdateDerivedQuantities\<close>.  After the swap the source reads
  \<^verbatim>\<open>Body_A->Position\<close> with no test of \<^verbatim>\<open>Body_A\<close>.
\<close>

definition Collision_UpdateDerivedQuantities :: "Bodies \<Rightarrow> real \<Rightarrow> Collision \<Rightarrow> error + Collision" where
  "Collision_UpdateDerivedQuantities bodies h c =
     (let c1 = (if Body_A c = None
                then c\<lparr> Normal := q_neg (Normal c), Body_A := Body_B c, Body_B := Body_A c \<rparr>
                else c)
      in bindE (FindOrthonormalBasisAtContactPoint c1) (\<lambda>c2.
         case Body_A c2 of None \<Rightarrow> Inl NullPointer
         | Some a \<Rightarrow>
           let c3 = c2\<lparr> RelativePosition_0 := q_sub (C_Position c2) (Position (bodies a)) \<rparr>;
               c4 = c3\<lparr> C_Velocity := GetRelativeVelocity c3 (bodies a) (RelativePosition_0 c3) h \<rparr>;
               c5 = (case Body_B c4 of None \<Rightarrow> c4
                     | Some b \<Rightarrow>
                       let d = c4\<lparr> RelativePosition_1 :=
                                     q_sub (C_Position c4) (Position (bodies b)) \<rparr>
                       in d\<lparr> C_Velocity := q_sub (C_Velocity d)
                              (GetRelativeVelocity d (bodies b) (RelativePosition_1 d) h) \<rparr>)
           in bindE (GetBouncingVelocity bodies h c5) (\<lambda>bv.
              Inr (c5\<lparr> BouncingVelocity := bv \<rparr>))))"

definition ActivateInactiveBodies :: "Bodies \<Rightarrow> Collision \<Rightarrow> error + Bodies" where
  "ActivateInactiveBodies bodies c =
     (case Body_B c of None \<Rightarrow> Inr bodies
      | Some b \<Rightarrow>
        (case Body_A c of None \<Rightarrow> Inl NullPointer
         | Some a \<Rightarrow>
           if IsActive (bodies a) \<noteq> IsActive (bodies b)
           then (if IsActive (bodies a)
                 then Inr (bodies(b := Activate (bodies b)))
                 else Inr (bodies(a := Activate (bodies a))))
           else Inr bodies))"

subsection \<open>ImpulseMethod.cpp: the impulse of one contact\<close>

definition GetImpulse :: "Bodies \<Rightarrow> Collision \<Rightarrow> error + Quaternion" where
  "GetImpulse bodies c =
     (case Body_A c of None \<Rightarrow> Inl NullPointer
      | Some a \<Rightarrow>
        let invRedMass_A = 0 + InverseMass (bodies a)
              + Dot (Cross (QTensor_apply (InverseInertiaWorld (bodies a))
                              (Cross (RelativePosition_0 c) (Normal c)))
                           (RelativePosition_0 c))
                    (Normal c);
            invRedMass =
              (case Body_B c of None \<Rightarrow> invRedMass_A
               | Some b \<Rightarrow> invRedMass_A + InverseMass (bodies b)
                   + Dot (Cross (QTensor_apply (InverseInertiaWorld (bodies b))
                                   (Cross (RelativePosition_1 c) (Normal c)))
                                (RelativePosition_1 c))
                         (Normal c))
        in bindE (fdiv (BouncingVelocity c) invRedMass) (\<lambda>j. Inr (SpatialVector j 0 0)))"

definition GetImpulse_IncludeFriction :: "QTensor \<Rightarrow> Bodies \<Rightarrow> Collision \<Rightarrow> error + Quaternion" where
  "GetImpulse_IncludeFriction u bodies c =
     (case Body_A c of None \<Rightarrow> Inl NullPointer
      | Some a \<Rightarrow>
        let crossR_A = SetSkewSymmetric (RelativePosition_0 c);
            delta_V_world_A =
              QTensor_neg (QTensor_mul (QTensor_mul crossR_A (InverseInertiaWorld (bodies a))) crossR_A);
            delta_V_world =
              (case Body_B c of None \<Rightarrow> delta_V_world_A
               | Some b \<Rightarrow>
                 let crossR_B = SetSkewSymmetric (RelativePosition_1 c)
                 in QTensor_add delta_V_world_A
                      (QTensor_neg (QTensor_mul (QTensor_mul crossR_B (InverseInertiaWorld (bodies b)))
                                      crossR_B)));
            dVc = TransformInverse_tensor u (C_ToWorld c) delta_V_world;
            inverseReducedMass = InverseMass (bodies a)
              + (case Body_B c of None \<Rightarrow> 0.0 | Some b \<Rightarrow> InverseMass (bodies b));
            delta_V_contact = dVc\<lparr> m_xx := m_xx dVc + inverseReducedMass,
                                   m_yy := m_yy dVc + inverseReducedMass,
                                   m_zz := m_zz dVc + inverseReducedMass \<rparr>
        in if C_Friction c = 0
           then bindE (fdiv (BouncingVelocity c) (m_xx delta_V_contact)) (\<lambda>j. Inr (Quat 0 j 0 0))
           else
             let target_V = Quat 0 (BouncingVelocity c) (- qy (C_Velocity c)) (- qz (C_Velocity c));
                 J = QTensor_apply (Inverse u delta_V_contact) target_V;
                 J_tangential = sqrt (qy J * qy J + qz J * qz J)
             in if J_tangential > qx J * C_Friction c
                then bindE (fdiv (qy J) J_tangential) (\<lambda>Jy.
                     bindE (fdiv (qz J) J_tangential) (\<lambda>Jz.
                       let invm = m_xx delta_V_contact
                                  + m_xy delta_V_contact * C_Friction c * Jy
                                  + m_xz delta_V_contact * C_Friction c * Jz
                       in bindE (fdiv (BouncingVelocity c) invm) (\<lambda>j_normal.
                          Inr (J\<lparr> qx := j_normal,
                                  qy := Jy * (C_Friction c * j_normal),
                                  qz := Jz * (C_Friction c * j_normal) \<rparr>))))
                else Inr J)"

text \<open>
  \<^verbatim>\<open>Collision::ImpulseTransfer\<close>.  The two momenta are updated through the
  pointers one after the other, so the model updates the store of bodies twice; the
  results are the store and the arrays \<^verbatim>\<open>V_jolt[2]\<close> and \<^verbatim>\<open>W_jolt[2]\<close>, which the
  caller has constructed as zero quaternions.
\<close>

definition ImpulseTransfer ::
  "QTensor \<Rightarrow> Bodies \<Rightarrow> Collision \<Rightarrow>
   error + (Bodies \<times> (Quaternion \<times> Quaternion) \<times> (Quaternion \<times> Quaternion))" where
  "ImpulseTransfer u bodies c =
     bindE (if C_Friction c = 0 then GetImpulse bodies c
            else GetImpulse_IncludeFriction u bodies c) (\<lambda>J_contact.
     case Body_A c of None \<Rightarrow> Inl NullPointer
     | Some a \<Rightarrow>
       let J = QTensor_apply (C_ToWorld c) J_contact;
           J_torque_A = Cross (RelativePosition_0 c) J;
           bodies1 = bodies(a := (bodies a)\<lparr>
                       LinearMomentum := q_add (LinearMomentum (bodies a)) J,
                       AngularMomentum := q_add (AngularMomentum (bodies a)) J_torque_A \<rparr>);
           V_jolt_0 = scale_q (InverseMass (bodies1 a)) J;
           W_jolt_0 = QTensor_apply (InverseInertiaWorld (bodies1 a)) J_torque_A
       in case Body_B c of
            None \<Rightarrow> Inr (bodies1, (V_jolt_0, Quaternion_zero), (W_jolt_0, Quaternion_zero))
          | Some b \<Rightarrow>
            let J_torque_B = Cross (RelativePosition_1 c) J;
                bodies2 = bodies1(b := (bodies1 b)\<lparr>
                            LinearMomentum := q_sub (LinearMomentum (bodies1 b)) J,
                            AngularMomentum := q_sub (AngularMomentum (bodies1 b)) J_torque_B \<rparr>);
                V_jolt_1 = q_neg (scale_q (InverseMass (bodies2 b)) J);
                W_jolt_1 = q_neg (QTensor_apply (InverseInertiaWorld (bodies2 b)) J_torque_B)
            in Inr (bodies2, (V_jolt_0, V_jolt_1), (W_jolt_0, W_jolt_1)))"

subsection \<open>PositionProjections.cpp: the projection of one contact\<close>

text \<open>
  The first loop of \<^verbatim>\<open>Collision::PositionProjection\<close>: the angular inverse inertia
  of a body along the normal, \<open>((I\<^sup>-\<^sup>1 (r \<times> N)) \<times> r) \<cdot> N\<close>.
\<close>

definition inverseAngInertia :: "QTensor \<Rightarrow> Quaternion \<Rightarrow> Quaternion \<Rightarrow> real" where
  "inverseAngInertia inverse_I_world relativePosition normal =
     Dot (Cross (QTensor_apply inverse_I_world (Cross relativePosition normal)) relativePosition)
         normal"

text \<open>
  One round of the second loop, for the body \<open>i\<close> under the pointer \<open>p\<close>:
  \<open>first\<close> says that it is round \<open>i = 0\<close>, \<open>inverse_I_world\<close> and \<open>invAng\<close> are the
  values the first loop has stored for this body.  The result is the store with the
  jolts \<^verbatim>\<open>X_jolt[i]\<close> and \<^verbatim>\<open>Q_jolt[i]\<close>.
\<close>

definition PositionProjection_body ::
  "QTensor \<Rightarrow> Collision \<Rightarrow> real \<Rightarrow> real \<Rightarrow> bool \<Rightarrow> nat \<Rightarrow> Quaternion \<Rightarrow> QTensor \<Rightarrow> real \<Rightarrow>
   Bodies \<Rightarrow> error + (Bodies \<times> Quaternion \<times> Quaternion)" where
  "PositionProjection_body u c relaxation inverseTotalInertia first p relativePosition
       inverse_I_world invAng bodies =
     (let penetration0 = (if first then Penetration c else - Penetration c);
          penetration = (if 0.0 < relaxation \<and> relaxation \<le> 1.0
                         then penetration0 * (1 - relaxation) else penetration0)
      in bindE (fdiv (InverseMass (bodies p)) inverseTotalInertia) (\<lambda>ratio_X.
         bindE (fdiv invAng inverseTotalInertia) (\<lambda>ratio_Q.
           let delta_X0 = penetration * ratio_X;
               delta_Q0 = penetration * ratio_Q;
               angularProjection =
                 q_sub relativePosition (q_scale (Normal c) (Dot relativePosition (Normal c)));
               Q_limit = (0.3 :: real);
               max_Q = Q_limit * ImNorm angularProjection;
               delta_X = (if delta_Q0 < - max_Q then (delta_X0 + delta_Q0) + max_Q
                          else if delta_Q0 > max_Q then (delta_X0 + delta_Q0) - max_Q
                          else delta_X0);
               delta_Q = (if delta_Q0 < - max_Q then - max_Q
                          else if delta_Q0 > max_Q then max_Q
                          else delta_Q0);
               X_jolt = q_scale (Normal c) delta_X;
               bodies1 = bodies(p := (bodies p)\<lparr> Position := q_add (Position (bodies p)) X_jolt \<rparr>)
           in if delta_Q = 0
              then Inr (bodies1, X_jolt, Quaternion_scalar 0)
              else bindE (fdiv delta_Q invAng) (\<lambda>factor.
                   let Q_jolt = q_scale (QTensor_apply inverse_I_world
                                           (Cross relativePosition (Normal c))) factor;
                       b2 = (bodies1 p)\<lparr> Orientation :=
                              q_add (Orientation (bodies1 p))
                                    (q_mul (scale_q 0.5 Q_jolt) (Orientation (bodies1 p))) \<rparr>
                   in Inr (bodies1(p := CalculateDerivedQuantities u True b2), X_jolt, Q_jolt)))))"

text \<open>
  \<^verbatim>\<open>Collision::PositionProjection\<close>: both loops skip a null body; the jolts of a
  skipped body stay the zero quaternions the caller has constructed.
\<close>

definition PositionProjection ::
  "QTensor \<Rightarrow> real \<Rightarrow> Bodies \<Rightarrow> Collision \<Rightarrow>
   error + (Bodies \<times> (Quaternion \<times> Quaternion) \<times> (Quaternion \<times> Quaternion))" where
  "PositionProjection u relaxation bodies c =
     (let I_0 = (case Body_A c of None \<Rightarrow> QTensor_Normalized
                 | Some a \<Rightarrow> InverseInertiaWorld (bodies a));
          I_1 = (case Body_B c of None \<Rightarrow> QTensor_Normalized
                 | Some b \<Rightarrow> InverseInertiaWorld (bodies b));
          ang_0 = inverseAngInertia I_0 (RelativePosition_0 c) (Normal c);
          ang_1 = inverseAngInertia I_1 (RelativePosition_1 c) (Normal c);
          total_0 = (case Body_A c of None \<Rightarrow> 0
                     | Some a \<Rightarrow> 0 + (InverseMass (bodies a) + ang_0));
          inverseTotalInertia = (case Body_B c of None \<Rightarrow> total_0
                     | Some b \<Rightarrow> total_0 + (InverseMass (bodies b) + ang_1))
      in bindE (case Body_A c of None \<Rightarrow> Inr (bodies, Quaternion_zero, Quaternion_zero)
                | Some a \<Rightarrow> PositionProjection_body u c relaxation inverseTotalInertia True a
                              (RelativePosition_0 c) I_0 ang_0 bodies) (\<lambda>(bodies1, X_0, Q_0).
         bindE (case Body_B c of None \<Rightarrow> Inr (bodies1, Quaternion_zero, Quaternion_zero)
                | Some b \<Rightarrow> PositionProjection_body u c relaxation inverseTotalInertia False b
                              (RelativePosition_1 c) I_1 ang_1 bodies1) (\<lambda>(bodies2, X_1, Q_1).
         Inr (bodies2, (X_0, X_1), (Q_0, Q_1)))))"

subsection \<open>The loops of the resolver\<close>

fun mapE :: "('a \<Rightarrow> error + 'b) \<Rightarrow> 'a list \<Rightarrow> error + 'b list" where
  "mapE f [] = Inr []"
| "mapE f (x # xs) = bindE (f x) (\<lambda>y. bindE (mapE f xs) (\<lambda>ys. Inr (y # ys)))"

fun foldE :: "('a \<Rightarrow> 's \<Rightarrow> error + 's) \<Rightarrow> 'a list \<Rightarrow> 's \<Rightarrow> error + 's" where
  "foldE f [] s = Inr s"
| "foldE f (x # xs) s = bindE (f x s) (foldE f xs)"

text \<open>
  The loops \<^verbatim>\<open>for ( i = 0; i < CollisionCount; ++i )\<close> read \<^verbatim>\<open>Collisions[i]\<close>: the
  registered contacts are the first \<open>CollisionCount\<close> of the area, and a count
  beyond the area is a read out of bounds.
\<close>

definition registered :: "CollisionResolver \<Rightarrow> error + Collision list" where
  "registered r =
     (if unat (CollisionCount r) > length (Collisions r) then Inl OutOfBounds
      else Inr (take (unat (CollisionCount r)) (Collisions r)))"

definition set_registered :: "CollisionResolver \<Rightarrow> Collision list \<Rightarrow> CollisionResolver" where
  "set_registered r cs = r\<lparr> Collisions := cs @ drop (unat (CollisionCount r)) (Collisions r) \<rparr>"

definition CollisionResolver_UpdateDerivedQuantities ::
  "Bodies \<Rightarrow> real \<Rightarrow> CollisionResolver \<Rightarrow> error + CollisionResolver" where
  "CollisionResolver_UpdateDerivedQuantities bodies timeStep r =
     bindE (registered r) (\<lambda>cs.
     bindE (mapE (Collision_UpdateDerivedQuantities bodies timeStep) cs) (\<lambda>cs'.
     Inr (set_registered r cs')))"

text \<open>
  The scan of \<^verbatim>\<open>FindLargestBouncingVelocity\<close> and \<^verbatim>\<open>FindLargestPenetration\<close>:
  \<open>i\<close> is the index of the head of the list, \<open>contact\<close> the pointer found so far, as
  an index.
\<close>

fun FindLargest ::
  "(Collision \<Rightarrow> real) \<Rightarrow> Collision list \<Rightarrow> nat \<Rightarrow> real \<Rightarrow> nat option \<Rightarrow> nat option" where
  "FindLargest f [] i eps contact = contact"
| "FindLargest f (c # cs) i eps contact =
     (if f c > eps then FindLargest f cs (i + 1) (f c) (Some i)
      else FindLargest f cs (i + 1) eps contact)"

definition FindLargestBouncingVelocity :: "real \<Rightarrow> CollisionResolver \<Rightarrow> error + nat option" where
  "FindLargestBouncingVelocity eps r =
     bindE (registered r) (\<lambda>cs. Inr (FindLargest BouncingVelocity cs 0 eps None))"

definition FindLargestPenetration :: "real \<Rightarrow> CollisionResolver \<Rightarrow> error + nat option" where
  "FindLargestPenetration eps r =
     bindE (registered r) (\<lambda>cs. Inr (FindLargest Penetration cs 0 eps None))"

text \<open>
  The body of the two innermost loops of \<^verbatim>\<open>ImpulseTransfers\<close> for one pair
  \<open>(a, b)\<close> of indices (\<open>False\<close> is index 0, \<open>True\<close> index 1): \<open>bic\<close> are the two body
  pointers of the contact just resolved.
\<close>

definition VelocityUpdate ::
  "Bodies \<Rightarrow> real \<Rightarrow> nat option \<times> nat option \<Rightarrow> Quaternion \<times> Quaternion \<Rightarrow>
   Quaternion \<times> Quaternion \<Rightarrow> bool \<Rightarrow> bool \<Rightarrow> Collision \<Rightarrow> error + Collision" where
  "VelocityUpdate bodies h bic V_jolt W_jolt a b c_i =
     (let b_i_a = (if a then Body_B c_i else Body_A c_i) in
      if b_i_a = None then Inr c_i
      else if b_i_a \<noteq> (if b then snd bic else fst bic) then Inr c_i
      else
        let delta_V = q_add (if b then snd V_jolt else fst V_jolt)
                        (Cross (if b then snd W_jolt else fst W_jolt)
                               (if a then RelativePosition_1 c_i else RelativePosition_0 c_i));
            dV_world = TransformInverse (C_ToWorld c_i) delta_V;
            c1 = c_i\<lparr> C_Velocity := q_add (C_Velocity c_i)
                                         (if a then q_neg dV_world else dV_world) \<rparr>
        in bindE (GetBouncingVelocity bodies h c1) (\<lambda>bv. Inr (c1\<lparr> BouncingVelocity := bv \<rparr>)))"

definition VelocityUpdates ::
  "Bodies \<Rightarrow> real \<Rightarrow> nat option \<times> nat option \<Rightarrow> Quaternion \<times> Quaternion \<Rightarrow>
   Quaternion \<times> Quaternion \<Rightarrow> Collision \<Rightarrow> error + Collision" where
  "VelocityUpdates bodies h bic V_jolt W_jolt c_i =
     bindE (VelocityUpdate bodies h bic V_jolt W_jolt False False c_i) (\<lambda>c1.
     bindE (VelocityUpdate bodies h bic V_jolt W_jolt False True c1) (\<lambda>c2.
     bindE (VelocityUpdate bodies h bic V_jolt W_jolt True False c2) (\<lambda>c3.
     VelocityUpdate bodies h bic V_jolt W_jolt True True c3)))"

text \<open>
  One iteration of the loop of \<^verbatim>\<open>ImpulseTransfers\<close>: \<open>Inr None\<close> is the
  \<^verbatim>\<open>break\<close>, taken when no contact has a bouncing velocity above \<open>eps\<close>.
\<close>

definition ImpulseTransfers_iteration ::
  "QTensor \<Rightarrow> real \<Rightarrow> real \<Rightarrow> CollisionResolver \<times> Bodies \<Rightarrow>
   error + (CollisionResolver \<times> Bodies) option" where
  "ImpulseTransfers_iteration u h eps s =
     (let (r, bodies) = s in
      bindE (FindLargestBouncingVelocity eps r) (\<lambda>found.
      case found of None \<Rightarrow> Inr None
      | Some k \<Rightarrow>
        let contact = Collisions r ! k in
        bindE (ActivateInactiveBodies bodies contact) (\<lambda>bodies1.
        bindE (ImpulseTransfer u bodies1 contact) (\<lambda>(bodies2, V_jolt, W_jolt).
        bindE (registered r) (\<lambda>cs.
        bindE (mapE (VelocityUpdates bodies2 h (Body_A contact, Body_B contact) V_jolt W_jolt) cs)
          (\<lambda>cs'. Inr (Some (set_registered r cs', bodies2))))))))"

text \<open>
  The loop \<^verbatim>\<open>for ( iteration = 0; iteration < maxIterations; ++iteration )\<close>.  The
  first component of the result counts the times the loop body was entered.
\<close>

function ImpulseTransfers_loop ::
  "QTensor \<Rightarrow> real \<Rightarrow> real \<Rightarrow> 32 word \<Rightarrow> 32 word \<Rightarrow> CollisionResolver \<times> Bodies \<Rightarrow>
   nat \<times> (error + CollisionResolver \<times> Bodies)" where
  "ImpulseTransfers_loop u h eps iteration maxIterations s =
     (if iteration < maxIterations
      then (case ImpulseTransfers_iteration u h eps s of
              Inl e \<Rightarrow> (unat iteration + 1, Inl e)
            | Inr None \<Rightarrow> (unat iteration + 1, Inr s)
            | Inr (Some s') \<Rightarrow> ImpulseTransfers_loop u h eps (iteration + 1) maxIterations s')
      else (unat iteration, Inr s))"
  by pat_completeness auto
termination
proof (relation "measure (\<lambda>(u, h, eps, iteration, maxIterations, s).
                  unat maxIterations - unat iteration)")
  show "wf (measure (\<lambda>(u, h, eps, iteration, maxIterations, s).
                  unat maxIterations - unat (iteration :: 32 word)))" by simp
next
  fix u :: QTensor and h eps :: real and iteration maxIterations :: "32 word"
    and s :: "CollisionResolver \<times> Bodies" and x2 x2a
  assume lt: "iteration < maxIterations"
  then have "unat iteration < unat maxIterations" by (simp add: word_less_nat_alt)
  moreover have "unat maxIterations < 2 ^ LENGTH(32)" by (rule unsigned_less)
  ultimately have "unat iteration + unat (1 :: 32 word) < 2 ^ LENGTH(32)" by simp
  then have "unat (iteration + 1) = unat iteration + 1"
    using unat_add_lem [of iteration 1] by simp
  then show "((u, h, eps, iteration + 1, maxIterations, x2a), u, h, eps, iteration, maxIterations, s)
        \<in> measure (\<lambda>(u, h, eps, iteration, maxIterations, s). unat maxIterations - unat iteration)"
    using \<open>unat iteration < unat maxIterations\<close> by simp
qed

text \<open>
  \<^verbatim>\<open>CollisionResolver::ImpulseTransfers( h, maxIterations = 0, eps = 0.01 )\<close>;
  \<^verbatim>\<open>8 * CollisionCount\<close> is a product of \<^verbatim>\<open>unsigned\<close> values and wraps.
\<close>

definition ImpulseTransfers ::
  "QTensor \<Rightarrow> real \<Rightarrow> 32 word \<Rightarrow> real \<Rightarrow> CollisionResolver \<times> Bodies \<Rightarrow>
   nat \<times> (error + CollisionResolver \<times> Bodies)" where
  "ImpulseTransfers u h maxIterations eps s =
     (if CollisionCount (fst s) = 0 then (0, Inr s)
      else
        let maxIterations' = (if maxIterations = 0 then 8 * CollisionCount (fst s)
                              else maxIterations);
            eps' = (if eps = 0 then 0.01 else eps)
        in ImpulseTransfers_loop u h eps' 0 maxIterations' s)"

text \<open>The body of the two innermost loops of \<^verbatim>\<open>PositionProjections\<close> for one pair \<open>(a, b)\<close>.\<close>

definition PenetrationUpdate ::
  "nat option \<times> nat option \<Rightarrow> Quaternion \<times> Quaternion \<Rightarrow> Quaternion \<times> Quaternion \<Rightarrow>
   bool \<Rightarrow> bool \<Rightarrow> Collision \<Rightarrow> Collision" where
  "PenetrationUpdate bic X_jolt Q_jolt a b c_aff =
     (let b_aff_a = (if a then Body_B c_aff else Body_A c_aff) in
      if b_aff_a \<noteq> None \<and> b_aff_a = (if b then snd bic else fst bic)
      then
        let deltaPosition = q_add (if b then snd X_jolt else fst X_jolt)
                              (Cross (if b then snd Q_jolt else fst Q_jolt)
                                 (if a then RelativePosition_1 c_aff else RelativePosition_0 c_aff));
            dP_n = Dot deltaPosition (Normal c_aff)
        in c_aff\<lparr> Penetration := Penetration c_aff + (if a then dP_n else - dP_n) \<rparr>
      else c_aff)"

definition PenetrationUpdates ::
  "nat option \<times> nat option \<Rightarrow> Quaternion \<times> Quaternion \<Rightarrow> Quaternion \<times> Quaternion \<Rightarrow>
   Collision \<Rightarrow> Collision" where
  "PenetrationUpdates bic X_jolt Q_jolt c_aff =
     PenetrationUpdate bic X_jolt Q_jolt True True
       (PenetrationUpdate bic X_jolt Q_jolt True False
         (PenetrationUpdate bic X_jolt Q_jolt False True
           (PenetrationUpdate bic X_jolt Q_jolt False False c_aff)))"

definition PositionProjections_iteration ::
  "QTensor \<Rightarrow> real \<Rightarrow> CollisionResolver \<times> Bodies \<Rightarrow>
   error + (CollisionResolver \<times> Bodies) option" where
  "PositionProjections_iteration u eps s =
     (let (r, bodies) = s in
      bindE (FindLargestPenetration eps r) (\<lambda>found.
      case found of None \<Rightarrow> Inr None
      | Some k \<Rightarrow>
        let contact = Collisions r ! k in
        bindE (ActivateInactiveBodies bodies contact) (\<lambda>bodies1.
        bindE (PositionProjection u (Relaxation r) bodies1 contact) (\<lambda>(bodies2, X_jolt, Q_jolt).
        bindE (registered r) (\<lambda>cs.
        Inr (Some (set_registered r
                     (map (PenetrationUpdates (Body_A contact, Body_B contact) X_jolt Q_jolt) cs),
                   bodies2)))))))"

function PositionProjections_loop ::
  "QTensor \<Rightarrow> real \<Rightarrow> 32 word \<Rightarrow> 32 word \<Rightarrow> CollisionResolver \<times> Bodies \<Rightarrow>
   nat \<times> (error + CollisionResolver \<times> Bodies)" where
  "PositionProjections_loop u eps iteration maxIterations s =
     (if iteration < maxIterations
      then (case PositionProjections_iteration u eps s of
              Inl e \<Rightarrow> (unat iteration + 1, Inl e)
            | Inr None \<Rightarrow> (unat iteration + 1, Inr s)
            | Inr (Some s') \<Rightarrow> PositionProjections_loop u eps (iteration + 1) maxIterations s')
      else (unat iteration, Inr s))"
  by pat_completeness auto
termination
proof (relation "measure (\<lambda>(u, eps, iteration, maxIterations, s).
                  unat maxIterations - unat iteration)")
  show "wf (measure (\<lambda>(u, eps, iteration, maxIterations, s).
                  unat maxIterations - unat (iteration :: 32 word)))" by simp
next
  fix u :: QTensor and eps :: real and iteration maxIterations :: "32 word"
    and s :: "CollisionResolver \<times> Bodies" and x2 x2a
  assume lt: "iteration < maxIterations"
  then have "unat iteration < unat maxIterations" by (simp add: word_less_nat_alt)
  moreover have "unat maxIterations < 2 ^ LENGTH(32)" by (rule unsigned_less)
  ultimately have "unat iteration + unat (1 :: 32 word) < 2 ^ LENGTH(32)" by simp
  then have "unat (iteration + 1) = unat iteration + 1"
    using unat_add_lem [of iteration 1] by simp
  then show "((u, eps, iteration + 1, maxIterations, x2a), u, eps, iteration, maxIterations, s)
        \<in> measure (\<lambda>(u, eps, iteration, maxIterations, s). unat maxIterations - unat iteration)"
    using \<open>unat iteration < unat maxIterations\<close> by simp
qed

text \<open>\<^verbatim>\<open>CollisionResolver::PositionProjections( maxIterations = 0, eps = 0.01 )\<close>.\<close>

definition PositionProjections ::
  "QTensor \<Rightarrow> 32 word \<Rightarrow> real \<Rightarrow> CollisionResolver \<times> Bodies \<Rightarrow>
   nat \<times> (error + CollisionResolver \<times> Bodies)" where
  "PositionProjections u maxIterations eps s =
     (if CollisionCount (fst s) = 0 then (0, Inr s)
      else
        let maxIterations' = (if maxIterations = 0 then 8 * CollisionCount (fst s)
                              else maxIterations);
            eps' = (if eps = 0 then 1 / 100 else eps)
        in PositionProjections_loop u eps' 0 maxIterations' s)"

subsection \<open>WoRB.h: the step of the world\<close>

text \<open>
  The three cuboid detectors of \<^verbatim>\<open>CollisionDetection.cpp\<close> read the geometries and
  the bodies and call \<^verbatim>\<open>RegisterNewContact\<close>; they are parameters of the step, which
  is so stated for every detector of this kind.
\<close>

type_synonym detector =
  "Bodies \<Rightarrow> Geometry \<Rightarrow> Geometry \<Rightarrow> CollisionResolver \<Rightarrow> error + (32 word \<times> CollisionResolver)"

record CuboidChecks =
  Cuboid_Check_Sphere :: detector
  Cuboid_Check_Cuboid :: detector
  Cuboid_Check_HalfSpace :: detector

definition discard_count ::
  "error + (32 word \<times> CollisionResolver) \<Rightarrow> error + CollisionResolver" where
  "discard_count m = bindE m (\<lambda>(n, r). Inr r)"

text \<open>\<^verbatim>\<open>Geometry::Detect\<close>, the dispatch on the two class tags.\<close>

definition Detect ::
  "CuboidChecks \<Rightarrow> Bodies \<Rightarrow> Geometry \<Rightarrow> Geometry \<Rightarrow> CollisionResolver \<Rightarrow>
   error + CollisionResolver" where
  "Detect cc bodies this B owner =
     (if \<not> HasSpaceForMoreContacts owner then Inr owner
      else case this of
        Sphere _ _ \<Rightarrow> (case B of
            Sphere _ _ \<Rightarrow> discard_count (Sphere_Check_Sphere bodies this B owner)
          | Cuboid _ _ \<Rightarrow> discard_count (Cuboid_Check_Sphere cc bodies B this owner)
          | HalfSpace _ _ _ \<Rightarrow> discard_count (Sphere_Check_HalfSpace bodies this B owner)
          | TruePlane _ _ _ \<Rightarrow> discard_count (Sphere_Check_TruePlane bodies this B owner))
      | Cuboid _ _ \<Rightarrow> (case B of
            Sphere _ _ \<Rightarrow> discard_count (Cuboid_Check_Sphere cc bodies this B owner)
          | Cuboid _ _ \<Rightarrow> discard_count (Cuboid_Check_Cuboid cc bodies this B owner)
          | HalfSpace _ _ _ \<Rightarrow> discard_count (Cuboid_Check_HalfSpace cc bodies this B owner)
          | TruePlane _ _ _ \<Rightarrow> Inr owner)
      | HalfSpace _ _ _ \<Rightarrow> (case B of
            Sphere _ _ \<Rightarrow> discard_count (Sphere_Check_HalfSpace bodies B this owner)
          | Cuboid _ _ \<Rightarrow> discard_count (Cuboid_Check_HalfSpace cc bodies B this owner)
          | HalfSpace _ _ _ \<Rightarrow> Inr owner
          | TruePlane _ _ _ \<Rightarrow> Inr owner)
      | TruePlane _ _ _ \<Rightarrow> (case B of
            Sphere _ _ \<Rightarrow> discard_count (Sphere_Check_TruePlane bodies B this owner)
          | Cuboid _ _ \<Rightarrow> Inr owner
          | HalfSpace _ _ _ \<Rightarrow> Inr owner
          | TruePlane _ _ _ \<Rightarrow> Inr owner))"

text \<open>
  The members of \<^verbatim>\<open>WorldOfRigidBodies\<close> after the object array.  The bodies
  themselves live outside the world, behind the pointers of its geometries: the
  state of a step is the world together with the store of bodies.
\<close>

record World = ObjectArray +
  Gravity :: Quaternion
  Time :: real
  TimeStepCount :: "64 word"
  TotalKineticEnergy :: real
  TotalPotentialEnergy :: real
  TotalLinearMomentum :: Quaternion
  W_TotalAngularMomentum :: Quaternion
  W_Collisions :: CollisionResolver

text \<open>
  The iterator \<^verbatim>\<open>RigidBodies\<close> visits the objects below \<open>ObjectCount\<close> whose
  \<^verbatim>\<open>Body\<close> is not null, in order; the result lists their body pointers.
\<close>

definition RigidBodies :: "World \<Rightarrow> error + nat list" where
  "RigidBodies w =
     (if unat (ObjectCount w) > length (Object w) then Inl OutOfBounds
      else Inr (List.map_filter Body (take (unat (ObjectCount w)) (Object w))))"

definition for_each_body :: "(RigidBody \<Rightarrow> RigidBody) \<Rightarrow> nat list \<Rightarrow> Bodies \<Rightarrow> Bodies" where
  "for_each_body f ps bodies = fold (\<lambda>p bs. bs(p := f (bs p))) ps bodies"

definition AddGravity :: "Quaternion \<Rightarrow> RigidBody \<Rightarrow> RigidBody" where
  "AddGravity g b =
     (let f_g = scale_q (Mass b) g;
          E_p = - Dot f_g (Position b)
      in AddExternalForce f_g E_p b)"

definition Totals :: "nat list \<Rightarrow> Bodies \<Rightarrow> World \<Rightarrow> World" where
  "Totals ps bodies w =
     fold (\<lambda>p v. v\<lparr>
             TotalKineticEnergy := TotalKineticEnergy v + KineticEnergy (bodies p),
             TotalPotentialEnergy := TotalPotentialEnergy v + PotentialEnergy (bodies p),
             TotalLinearMomentum := q_add (TotalLinearMomentum v) (LinearMomentum (bodies p)),
             W_TotalAngularMomentum :=
               q_add (W_TotalAngularMomentum v) (TotalAngularMomentum (bodies p)) \<rparr>)
          ps
          (w\<lparr> TotalKineticEnergy := 0,
               TotalPotentialEnergy := 0,
               TotalLinearMomentum := Quaternion_scalar 0,
               W_TotalAngularMomentum := Quaternion_scalar 0 \<rparr>)"

text \<open>The two nested loops over \<open>i < j < ObjectCount\<close> that call \<^verbatim>\<open>Detect\<close>.\<close>

definition DetectAll ::
  "CuboidChecks \<Rightarrow> Bodies \<Rightarrow> World \<Rightarrow> CollisionResolver \<Rightarrow> error + CollisionResolver" where
  "DetectAll cc bodies w r =
     (let n = unat (ObjectCount w) in
      foldE (\<lambda>(i, j). Detect cc bodies (Object w ! i) (Object w ! j))
            (concat (map (\<lambda>i. map (\<lambda>j. (i, j)) [i + 1 ..< n]) [0 ..< n])) r)"

text \<open>\<^verbatim>\<open>WorldOfRigidBodies::SolveODE( double h )\<close>.\<close>

definition World_SolveODE ::
  "CuboidChecks \<Rightarrow> QTensor \<Rightarrow> real \<Rightarrow> World \<times> Bodies \<Rightarrow> error + World \<times> Bodies" where
  "World_SolveODE cc u h s =
     (let (w, bodies) = s in
      bindE (RigidBodies w) (\<lambda>ps.
        let bodies1 = for_each_body (AddGravity (Gravity w)) ps bodies;
            bodies2 = for_each_body (RigidBody_SolveODE u h) ps bodies1;
            w1 = w\<lparr> TimeStepCount := TimeStepCount w + 1 \<rparr>;
            w2 = w1\<lparr> Time := h * real (unat (TimeStepCount w1)) \<rparr>;
            w3 = Totals ps bodies2 w2
        in bindE (DetectAll cc bodies2 w3 (Initialize (W_Collisions w3))) (\<lambda>r1.
           bindE (CollisionResolver_UpdateDerivedQuantities bodies2 h r1) (\<lambda>r2.
           bindE (snd (ImpulseTransfers u h 0 0.01 (r2, bodies2))) (\<lambda>(r3, bodies3).
           bindE (snd (PositionProjections u 0 0.01 (r3, bodies3))) (\<lambda>(r4, bodies4).
           Inr (w3\<lparr> W_Collisions := r4 \<rparr>, for_each_body ClearAccumulators ps bodies4)))))))"

text \<open>A sequence of steps, one for each step length of the list.\<close>

fun World_steps ::
  "CuboidChecks \<Rightarrow> QTensor \<Rightarrow> real list \<Rightarrow> World \<times> Bodies \<Rightarrow> error + World \<times> Bodies" where
  "World_steps cc u [] s = Inr s"
| "World_steps cc u (h # hs) s = bindE (World_SolveODE cc u h s) (World_steps cc u hs)"

section \<open>Properties\<close>

text \<open>
  C10.  \<^verbatim>\<open>RigidBody::Activate\<close> acts on the inactive-to-active transition only: an
  active body is returned unchanged; an inactive body becomes active, its average
  kinetic energy becomes 0.6 times its mass (as \<^verbatim>\<open>Mass()\<close> reads it) and no other
  field changes; applying it twice is the same as applying it once.
\<close>

theorem Activate_transition_only:
  "(IsActive b \<longrightarrow> Activate b = b) \<and>
   (\<not> IsActive b \<longrightarrow>
      Activate b = b\<lparr> IsActive := True, AverageKineticEnergy := 0.6 * Mass b \<rparr>) \<and>
   Activate (Activate b) = Activate b"
  by (simp add: Activate_def)

theorem Activate_transition_only_witness:
  "IsActive (RigidBody_new\<lparr> IsActive := True \<rparr>) \<and>
   Activate (RigidBody_new\<lparr> IsActive := True \<rparr>) = RigidBody_new\<lparr> IsActive := True \<rparr> \<and>
   \<not> IsActive RigidBody_new \<and>
   Activate RigidBody_new =
     RigidBody_new\<lparr> IsActive := True, AverageKineticEnergy := 0.6 * Mass RigidBody_new \<rparr> \<and>
   AverageKineticEnergy (Activate RigidBody_new) = 6 * 10 ^ 29"
  using Activate_transition_only [of "RigidBody_new\<lparr> IsActive := True \<rparr>"]
        Activate_transition_only [of RigidBody_new]
  by (simp add: RigidBody_new_def Mass_def)




subsection \<open>The contact registry\<close>

lemma RegisterNewContact_step:
  assumes nf: "NextFree r = unat (CollisionCount r)"
    and sum: "unat (FreeCount r) + unat (CollisionCount r) = unat (MaxCollisionCount r)"
    and len: "length (Collisions r) = unat (MaxCollisionCount r)"
  shows "RegisterNewContact a b X N d r =
     (if CollisionCount r = MaxCollisionCount r then Inr (0, r)
      else Inr (1, r\<lparr>
        Collisions := (Collisions r)[unat (CollisionCount r) :=
          (Collisions r ! unat (CollisionCount r))\<lparr>
            Body_A := a, Body_B := b, C_Position := X, Normal := N, Penetration := d,
            C_Friction := Friction r, C_Restitution := Restitution r \<rparr>],
        NextFree := unat (CollisionCount r) + 1,
        FreeCount := FreeCount r - 1,
        CollisionCount := CollisionCount r + 1 \<rparr>))"
proof (cases "CollisionCount r = MaxCollisionCount r")
  case True
  then have "unat (FreeCount r) = 0" using sum by simp
  then have "FreeCount r = 0" by (simp add: unat_eq_zero)
  then show ?thesis using True by (simp add: RegisterNewContact_def)
next
  case False
  then have ne: "unat (CollisionCount r) \<noteq> unat (MaxCollisionCount r)"
    by (simp add: word_unat_eq_iff)
  then have f: "FreeCount r \<noteq> 0" using sum by auto
  have lt: "unat (CollisionCount r) < unat (MaxCollisionCount r)" using sum ne by linarith
  show ?thesis using False f lt nf len by (simp add: RegisterNewContact_def)
qed

lemma RegisterAll_invariant:
  assumes nf: "NextFree r = unat (CollisionCount r)"
    and sum: "unat (FreeCount r) + unat (CollisionCount r) = unat (MaxCollisionCount r)"
    and len: "length (Collisions r) = unat (MaxCollisionCount r)"
  shows "\<exists>rets r'. RegisterAll r reqs = Inr (rets, r') \<and>
      NextFree r' = unat (CollisionCount r') \<and>
      unat (FreeCount r') + unat (CollisionCount r') = unat (MaxCollisionCount r') \<and>
      length (Collisions r') = unat (MaxCollisionCount r') \<and>
      MaxCollisionCount r' = MaxCollisionCount r \<and>
      unat (CollisionCount r') = unat (CollisionCount r) + length (filter (\<lambda>v. v = 1) rets) \<and>
      (\<forall>v \<in> set rets. v = 0 \<or> v = 1)"
  using assms
proof (induction reqs arbitrary: r)
  case Nil
  then show ?case by simp
next
  case (Cons req reqs)
  obtain a b X N d where req: "req = (a, b, X, N, d)" by (cases req) auto
  note step = RegisterNewContact_step [OF Cons.prems, of a b X N d]
  show ?case
  proof (cases "CollisionCount r = MaxCollisionCount r")
    case True
    from Cons.IH [OF Cons.prems] obtain rets r' where
      h: "RegisterAll r reqs = Inr (rets, r')"
         "NextFree r' = unat (CollisionCount r')"
         "unat (FreeCount r') + unat (CollisionCount r') = unat (MaxCollisionCount r')"
         "length (Collisions r') = unat (MaxCollisionCount r')"
         "MaxCollisionCount r' = MaxCollisionCount r"
         "unat (CollisionCount r') = unat (CollisionCount r) + length (filter (\<lambda>v. v = 1) rets)"
         "\<forall>v \<in> set rets. v = 0 \<or> v = 1" by blast
    have "RegisterAll r (req # reqs) = Inr (0 # rets, r')"
      using step True h(1) by (simp add: req bindE_def)
    then show ?thesis using h by simp
  next
    case False
    define r1 where "r1 = r\<lparr>
        Collisions := (Collisions r)[unat (CollisionCount r) :=
          (Collisions r ! unat (CollisionCount r))\<lparr>
            Body_A := a, Body_B := b, C_Position := X, Normal := N, Penetration := d,
            C_Friction := Friction r, C_Restitution := Restitution r \<rparr>],
        NextFree := unat (CollisionCount r) + 1,
        FreeCount := FreeCount r - 1,
        CollisionCount := CollisionCount r + 1 \<rparr>"
    have s1: "RegisterNewContact a b X N d r = Inr (1, r1)"
      using step False by (simp add: r1_def)
    have ne: "unat (CollisionCount r) \<noteq> unat (MaxCollisionCount r)"
      using False by (simp add: word_unat_eq_iff)
    have lt: "unat (CollisionCount r) < unat (MaxCollisionCount r)"
      using Cons.prems(2) ne by linarith
    have f: "FreeCount r \<noteq> 0" using Cons.prems(2) ne by auto
    have c1: "unat (CollisionCount r + 1) = unat (CollisionCount r) + 1"
    proof -
      have "unat (MaxCollisionCount r) < 2 ^ LENGTH(32)" by (rule unsigned_less)
      then have "unat (CollisionCount r) + unat (1 :: 32 word) < 2 ^ LENGTH(32)"
        using lt by simp
      then show ?thesis using unat_add_lem [of "CollisionCount r" 1] by simp
    qed
    have f1: "unat (FreeCount r - 1) = unat (FreeCount r) - 1"
      using f by (simp add: unat_minus_one)
    have fpos: "0 < unat (FreeCount r)" using f by (simp add: unat_gt_0)
    have p1: "NextFree r1 = unat (CollisionCount r1)" by (simp add: r1_def c1)
    have p2: "unat (FreeCount r1) + unat (CollisionCount r1) = unat (MaxCollisionCount r1)"
      using Cons.prems(2) fpos by (simp add: r1_def c1 f1)
    have p3: "length (Collisions r1) = unat (MaxCollisionCount r1)"
      using Cons.prems(3) by (simp add: r1_def)
    from Cons.IH [OF p1 p2 p3] obtain rets r' where
      h: "RegisterAll r1 reqs = Inr (rets, r')"
         "NextFree r' = unat (CollisionCount r')"
         "unat (FreeCount r') + unat (CollisionCount r') = unat (MaxCollisionCount r')"
         "length (Collisions r') = unat (MaxCollisionCount r')"
         "MaxCollisionCount r' = MaxCollisionCount r1"
         "unat (CollisionCount r') = unat (CollisionCount r1) + length (filter (\<lambda>v. v = 1) rets)"
         "\<forall>v \<in> set rets. v = 0 \<or> v = 1" by blast
    have "RegisterAll r (req # reqs) = Inr (1 # rets, r')"
      using s1 h(1) by (simp add: req bindE_def)
    moreover have "MaxCollisionCount r1 = MaxCollisionCount r" by (simp add: r1_def)
    moreover have "unat (CollisionCount r1) = unat (CollisionCount r) + 1" by (simp add: r1_def c1)
    ultimately show ?thesis using h by simp
  qed
qed

text \<open>
  C2.  After \<^verbatim>\<open>Initialize\<close> of a registry whose capacity is the length of its
  allocation area, every sequence of registration attempts runs without a store
  outside the area; each attempt returns 0 or 1; the contact count at the end is
  the number of attempts that returned 1 and is at most the capacity; and in the
  state reached, a further attempt returns 0 and leaves the registry unchanged
  exactly when the count has reached the capacity, and otherwise writes one contact
  into the slot under the count, returns 1 and increments the count by one.
\<close>

theorem RegisterNewContact_count:
  assumes "length (Collisions r0) = unat (MaxCollisionCount r0)"
  shows "\<exists>rets r. RegisterAll (Initialize r0) reqs = Inr (rets, r) \<and>
     (\<forall>v \<in> set rets. v = 0 \<or> v = 1) \<and>
     unat (CollisionCount r) = length (filter (\<lambda>v. v = 1) rets) \<and>
     CollisionCount r \<le> MaxCollisionCount r0 \<and>
     (\<forall>a b X N d. RegisterNewContact a b X N d r =
        (if CollisionCount r = MaxCollisionCount r0 then Inr (0, r)
         else Inr (1, r\<lparr>
           Collisions := (Collisions r)[unat (CollisionCount r) :=
             (Collisions r ! unat (CollisionCount r))\<lparr>
               Body_A := a, Body_B := b, C_Position := X, Normal := N, Penetration := d,
               C_Friction := Friction r, C_Restitution := Restitution r \<rparr>],
           NextFree := unat (CollisionCount r) + 1,
           FreeCount := FreeCount r - 1,
           CollisionCount := CollisionCount r + 1 \<rparr>)))"
proof -
  have i1: "NextFree (Initialize r0) = unat (CollisionCount (Initialize r0))"
    by (simp add: Initialize_def)
  have i2: "unat (FreeCount (Initialize r0)) + unat (CollisionCount (Initialize r0))
            = unat (MaxCollisionCount (Initialize r0))"
    by (simp add: Initialize_def)
  have i3: "length (Collisions (Initialize r0)) = unat (MaxCollisionCount (Initialize r0))"
    using assms by (simp add: Initialize_def)
  from RegisterAll_invariant [OF i1 i2 i3, of reqs] obtain rets r where
      h: "RegisterAll (Initialize r0) reqs = Inr (rets, r)"
         "NextFree r = unat (CollisionCount r)"
         "unat (FreeCount r) + unat (CollisionCount r) = unat (MaxCollisionCount r)"
         "length (Collisions r) = unat (MaxCollisionCount r)"
         "MaxCollisionCount r = MaxCollisionCount (Initialize r0)"
         "unat (CollisionCount r) = unat (CollisionCount (Initialize r0)) + length (filter (\<lambda>v. v = 1) rets)"
         "\<forall>v \<in> set rets. v = 0 \<or> v = 1" by blast
  have m: "MaxCollisionCount r = MaxCollisionCount r0" using h(5) by (simp add: Initialize_def)
  have cnt: "unat (CollisionCount r) = length (filter (\<lambda>v. v = 1) rets)"
    using h(6) by (simp add: Initialize_def)
  have le: "CollisionCount r \<le> MaxCollisionCount r0"
    using h(3) m by (simp add: word_le_nat_alt)
  have st: "\<forall>a b X N d. RegisterNewContact a b X N d r =
        (if CollisionCount r = MaxCollisionCount r0 then Inr (0, r)
         else Inr (1, r\<lparr>
           Collisions := (Collisions r)[unat (CollisionCount r) :=
             (Collisions r ! unat (CollisionCount r))\<lparr>
               Body_A := a, Body_B := b, C_Position := X, Normal := N, Penetration := d,
               C_Friction := Friction r, C_Restitution := Restitution r \<rparr>],
           NextFree := unat (CollisionCount r) + 1,
           FreeCount := FreeCount r - 1,
           CollisionCount := CollisionCount r + 1 \<rparr>))"
    using RegisterNewContact_step [OF h(2) h(3) h(4)] m by simp
  show ?thesis using h(1) h(7) cnt le st by blast
qed

theorem RegisterNewContact_count_witness:
  "length (Collisions (CollisionResolver_new [Collision_static, Collision_static] 2)) =
     unat (MaxCollisionCount (CollisionResolver_new [Collision_static, Collision_static] 2)) \<and>
   (\<exists>r. RegisterAll (Initialize (CollisionResolver_new [Collision_static, Collision_static] 2))
          [(Some 0, None, Quat 0 1 2 3, Quat 0 0 1 0, 1),
           (Some 1, None, Quat 0 4 5 6, Quat 0 0 1 0, 2),
           (Some 2, None, Quat 0 7 8 9, Quat 0 0 1 0, 3)]
        = Inr ([1, 1, 0], r) \<and> CollisionCount r = 2 \<and>
        map Penetration (Collisions r) = [1, 2] \<and> map Body_A (Collisions r) = [Some 0, Some 1])"
  using RegisterNewContact_count [of "CollisionResolver_new [Collision_static, Collision_static] 2"
     "[(Some 0, None, Quat 0 1 2 3, Quat 0 0 1 0, 1),
       (Some 1, None, Quat 0 4 5 6, Quat 0 0 1 0, 2),
       (Some 2, None, Quat 0 7 8 9, Quat 0 0 1 0, 3)]"]
  by (simp add: CollisionResolver_new_def Initialize_def RegisterNewContact_def bindE_def)

subsection \<open>The object array\<close>




subsection \<open>The sphere detectors\<close>

text \<open>
  C7.  For a sphere with centre \<open>X_s\<close> (its \<^verbatim>\<open>Position ()\<close>) and radius \<open>r\<close> against
  a half-space with normal \<open>n\<close> and offset \<open>d_plane\<close>, let
  \<open>d = n \<cdot> X_s - r - d_plane\<close>.  If \<open>d \<ge> 0\<close> the detector returns 0 and leaves the
  registry as it is.  If \<open>d < 0\<close> and the registry has space, it returns 1 and the
  registry differs in the slot under \<^verbatim>\<open>NextFree\<close> only, which now holds the sphere's
  body, no second body, the contact point \<open>X_s - n (d + r)\<close>, the normal \<open>n\<close> and the
  penetration \<open>- d\<close>, while the counters advance by one.
\<close>

theorem Sphere_Check_HalfSpace_contact:
  "(let X_s = Geometry_Position bodies (Sphere body r);
        d = Dot n X_s - r - d_plane;
        k = NextFree owner in
    (d \<ge> 0 \<longrightarrow>
       Sphere_Check_HalfSpace bodies (Sphere body r) (HalfSpace pb n d_plane) owner
         = Inr (0, owner)) \<and>
    (d < 0 \<and> HasSpaceForMoreContacts owner \<and> k < length (Collisions owner) \<longrightarrow>
       Sphere_Check_HalfSpace bodies (Sphere body r) (HalfSpace pb n d_plane) owner
         = Inr (1, owner\<lparr>
             Collisions := (Collisions owner)[k := (Collisions owner ! k)\<lparr>
               Body_A := body, Body_B := None,
               C_Position := q_sub X_s (q_scale n (d + r)),
               Normal := n,
               Penetration := - d,
               C_Friction := Friction owner,
               C_Restitution := Restitution owner \<rparr>],
             NextFree := k + 1,
             FreeCount := FreeCount owner - 1,
             CollisionCount := CollisionCount owner + 1 \<rparr>)))"
  by (simp add: Sphere_Check_HalfSpace_def RegisterNewContact_def HasSpaceForMoreContacts_def
      Let_def)

theorem Sphere_Check_HalfSpace_contact_witness:
  "Sphere_Check_HalfSpace (\<lambda>_. RigidBody_new\<lparr> ToWorld := QTensor_Identity\<lparr> m_yw := 3 \<rparr> \<rparr>)
     (Sphere (Some 0) 1) (HalfSpace None (Quat 0 0 1 0) 0)
     (CollisionResolver_new [Collision_static] 1) = Inr (0, CollisionResolver_new [Collision_static] 1) \<and>
   (\<exists>r. Sphere_Check_HalfSpace (\<lambda>_. RigidBody_new\<lparr> ToWorld := QTensor_Identity\<lparr> m_yw := 1 / 2 \<rparr> \<rparr>)
     (Sphere (Some 0) 1) (HalfSpace None (Quat 0 0 1 0) 0)
     (CollisionResolver_new [Collision_static] 1) = Inr (1, r) \<and>
     CollisionCount r = 1 \<and>
     map Body_A (Collisions r) = [Some 0] \<and> map Body_B (Collisions r) = [None] \<and>
     map C_Position (Collisions r) = [Quat 1 0 0 0] \<and>
     map Normal (Collisions r) = [Quat 0 0 1 0] \<and>
     map Penetration (Collisions r) = [1 / 2])"
  using Sphere_Check_HalfSpace_contact [of
          "\<lambda>_. RigidBody_new\<lparr> ToWorld := QTensor_Identity\<lparr> m_yw := 3 \<rparr> \<rparr>"
          "Some 0" 1 "Quat 0 0 1 0" 0 "CollisionResolver_new [Collision_static] 1" None]
        Sphere_Check_HalfSpace_contact [of
          "\<lambda>_. RigidBody_new\<lparr> ToWorld := QTensor_Identity\<lparr> m_yw := 1 / 2 \<rparr> \<rparr>"
          "Some 0" 1 "Quat 0 0 1 0" 0 "CollisionResolver_new [Collision_static] 1" None]
  by (simp add: Let_def Geometry_Position_def Column3_def RigidBody_new_def QTensor_Identity_def
      SetComponents_def Dot_def Quat_def q_sub_def q_scale_def HasSpaceForMoreContacts_def
      CollisionResolver_new_def)

text \<open>
  C8 at a failing input.  Two spheres of radius 1 on bodies with the same position:
  the distance 0 is below the sum of the radii, and \<^verbatim>\<open>1.0 / distance\<close> divides
  by zero.
\<close>

theorem Sphere_Check_Sphere_coincident:
  "Sphere_Check_Sphere (\<lambda>_. RigidBody_new) (Sphere (Some 0) 1) (Sphere (Some 1) 1)
     (CollisionResolver_new [Collision_static] 1) = Inl DivisionByZero"
  by (simp add: Sphere_Check_Sphere_def HasSpaceForMoreContacts_def CollisionResolver_new_def
      Geometry_Position_def Column3_def RigidBody_new_def QTensor_Identity_def SetComponents_def
      q_sub_def Quat_def ImNorm_def ImSquaredNorm_def fdiv_def bindE_def)

subsection \<open>Position and axes of a geometry\<close>




subsection \<open>Impulse transfer\<close>

lemma Quat_sel [simp]:
  "qw (Quat a b c d) = a" "qx (Quat a b c d) = b" "qy (Quat a b c d) = c" "qz (Quat a b c d) = d"
  by (simp_all add: Quat_def)

lemma Quat_eq_iff [simp]:
  "Quat a b c d = Quat a' b' c' d' \<longleftrightarrow> a = a' \<and> b = b' \<and> c = c' \<and> d = d'"
  by (simp add: Quat_def)

lemma bindE_Inr_iff: "bindE m f = Inr y \<longleftrightarrow> (\<exists>v. m = Inr v \<and> f v = Inr y)"
  by (cases m) (simp_all add: bindE_def)


subsection \<open>The iteration cap of the resolvers\<close>

lemma ImpulseTransfers_loop_bound:
  "fst (ImpulseTransfers_loop u h eps iteration maxIterations s)
     \<le> max (unat iteration) (unat maxIterations)"
proof (induction u h eps iteration maxIterations s rule: ImpulseTransfers_loop.induct)
  case (1 u h eps iteration maxIterations s)
  show ?case
  proof (cases "iteration < maxIterations")
    case False
    then show ?thesis by (simp add: ImpulseTransfers_loop.simps [of u h eps iteration])
  next
    case True
    then have lt: "unat iteration < unat maxIterations" by (simp add: word_less_nat_alt)
    have "unat maxIterations < 2 ^ LENGTH(32)" by (rule unsigned_less)
    then have "unat iteration + unat (1 :: 32 word) < 2 ^ LENGTH(32)" using lt by simp
    then have suc: "unat (iteration + 1) = unat iteration + 1"
      using unat_add_lem [of iteration 1] by simp
    show ?thesis
    proof (cases "ImpulseTransfers_iteration u h eps s")
      case (Inl e)
      then show ?thesis using True lt
        by (simp add: ImpulseTransfers_loop.simps [of u h eps iteration])
    next
      case (Inr x)
      show ?thesis
      proof (cases x)
        case None
        then show ?thesis using True lt Inr
          by (simp add: ImpulseTransfers_loop.simps [of u h eps iteration])
      next
        case (Some s')
        have "fst (ImpulseTransfers_loop u h eps (iteration + 1) maxIterations s')
                \<le> max (unat (iteration + 1)) (unat maxIterations)"
          using "1.IH" [OF True Inr Some] .
        then show ?thesis using True lt Inr Some suc
          by (simp add: ImpulseTransfers_loop.simps [of u h eps iteration])
      qed
    qed
  qed
qed

lemma PositionProjections_loop_bound:
  "fst (PositionProjections_loop u eps iteration maxIterations s)
     \<le> max (unat iteration) (unat maxIterations)"
proof (induction u eps iteration maxIterations s rule: PositionProjections_loop.induct)
  case (1 u eps iteration maxIterations s)
  show ?case
  proof (cases "iteration < maxIterations")
    case False
    then show ?thesis by (simp add: PositionProjections_loop.simps [of u eps iteration])
  next
    case True
    then have lt: "unat iteration < unat maxIterations" by (simp add: word_less_nat_alt)
    have "unat maxIterations < 2 ^ LENGTH(32)" by (rule unsigned_less)
    then have "unat iteration + unat (1 :: 32 word) < 2 ^ LENGTH(32)" using lt by simp
    then have suc: "unat (iteration + 1) = unat iteration + 1"
      using unat_add_lem [of iteration 1] by simp
    show ?thesis
    proof (cases "PositionProjections_iteration u eps s")
      case (Inl e)
      then show ?thesis using True lt
        by (simp add: PositionProjections_loop.simps [of u eps iteration])
    next
      case (Inr x)
      show ?thesis
      proof (cases x)
        case None
        then show ?thesis using True lt Inr
          by (simp add: PositionProjections_loop.simps [of u eps iteration])
      next
        case (Some s')
        have "fst (PositionProjections_loop u eps (iteration + 1) maxIterations s')
                \<le> max (unat (iteration + 1)) (unat maxIterations)"
          using "1.IH" [OF True Inr Some] .
        then show ?thesis using True lt Inr Some suc
          by (simp add: PositionProjections_loop.simps [of u eps iteration])
      qed
    qed
  qed
qed

lemma unat_times_8_le: "unat (8 * (n :: 32 word)) \<le> 8 * unat n"
proof -
  have "unat (8 * n) = (unat (8 :: 32 word) * unat n) mod 2 ^ LENGTH(32)"
    by (rule unat_word_ariths(2))
  also have "\<dots> \<le> unat (8 :: 32 word) * unat n" by (rule mod_less_eq_dividend)
  finally show ?thesis by simp
qed

text \<open>
  C6.  Called with \<^verbatim>\<open>maxIterations = 0\<close>, each of the two resolvers enters its loop
  body at most 8 times the number of registered contacts and then returns, for every
  registry, every store of bodies and every tolerance, whatever bouncing velocities
  and penetrations remain.  Both models are total functions: there is nothing they
  wait for.
\<close>

theorem resolvers_iteration_cap:
  "fst (ImpulseTransfers u h 0 velocityEPS s) \<le> 8 * unat (CollisionCount (fst s)) \<and>
   fst (PositionProjections u 0 positionEPS s) \<le> 8 * unat (CollisionCount (fst s))"
proof
  show "fst (ImpulseTransfers u h 0 velocityEPS s) \<le> 8 * unat (CollisionCount (fst s))"
  proof (cases "CollisionCount (fst s) = 0")
    case True
    then show ?thesis by (simp add: ImpulseTransfers_def)
  next
    case False
    have "fst (ImpulseTransfers u h 0 velocityEPS s)
            \<le> max (unat (0 :: 32 word)) (unat (8 * CollisionCount (fst s)))"
      using False ImpulseTransfers_loop_bound [of u h _ 0 "8 * CollisionCount (fst s)" s]
      by (simp add: ImpulseTransfers_def Let_def)
    then show ?thesis using unat_times_8_le [of "CollisionCount (fst s)"] by simp
  qed
next
  show "fst (PositionProjections u 0 positionEPS s) \<le> 8 * unat (CollisionCount (fst s))"
  proof (cases "CollisionCount (fst s) = 0")
    case True
    then show ?thesis by (simp add: PositionProjections_def)
  next
    case False
    have "fst (PositionProjections u 0 positionEPS s)
            \<le> max (unat (0 :: 32 word)) (unat (8 * CollisionCount (fst s)))"
      using False PositionProjections_loop_bound [of u _ 0 "8 * CollisionCount (fst s)" s]
      by (simp add: PositionProjections_def Let_def)
    then show ?thesis using unat_times_8_le [of "CollisionCount (fst s)"] by simp
  qed
qed


subsection \<open>The orientation through a step of the world\<close>

lemma Normalize_unit: "Norm (Normalize 1 q) = 1"
proof (cases "Norm q = 0")
  case True
  then have "SquaredNorm q = 0" by (simp add: Norm_def)
  then have z: "qx q = 0 \<and> qy q = 0 \<and> qz q = 0"
    unfolding SquaredNorm_def
    by (smt (verit) mult_nonneg_nonneg not_sum_squares_lt_zero sum_squares_eq_zero_iff zero_le_square add_nonneg_eq_0_iff)
  show ?thesis using True z by (simp add: Normalize_def Norm_def SquaredNorm_def)
next
  case False
  have nn: "0 \<le> SquaredNorm q" by (simp add: SquaredNorm_def)
  have pos: "0 < SquaredNorm q" using False nn by (simp add: Norm_def less_le)
  have sq: "Norm q * Norm q = SquaredNorm q" using nn by (simp add: Norm_def)
  have "SquaredNorm (q_scale q (1 / Norm q)) = SquaredNorm q * ((1 / Norm q) * (1 / Norm q))"
    by (simp add: SquaredNorm_def q_scale_def algebra_simps)
  also have "\<dots> = SquaredNorm q / (Norm q * Norm q)" by simp
  also have "\<dots> = 1" using pos sq by simp
  finally show ?thesis using False by (simp add: Normalize_def Norm_def)
qed

lemma CalculateDerivedQuantities_Orientation:
  "Orientation (CalculateDerivedQuantities u fm b) = Normalize 1 (Orientation b)"
  by (simp add: CalculateDerivedQuantities_def Let_def)

lemma Deactivate_Orientation: "Orientation (Deactivate b) = Orientation b"
  by (simp add: Deactivate_def)

lemma Activate_Orientation: "Orientation (Activate b) = Orientation b"
  by (simp add: Activate_def)

lemma DampMomentum_Orientation: "Orientation (DampMomentum h b) = Orientation b"
  by (simp add: DampMomentum_def Let_def)

lemma RigidBody_SolveODE_unit:
  "Norm (Orientation b) = 1 \<Longrightarrow> Norm (Orientation (RigidBody_SolveODE u h b)) = 1"
  by (simp add: RigidBody_SolveODE_def Let_def CalculateDerivedQuantities_Orientation
      Deactivate_Orientation Normalize_unit)

lemma AddGravity_Orientation: "Orientation (AddGravity g b) = Orientation b"
  by (simp add: AddGravity_def AddExternalForce_def Let_def)

lemma ClearAccumulators_Orientation: "Orientation (ClearAccumulators b) = Orientation b"
  by (simp add: ClearAccumulators_def)

lemma for_each_body_unit:
  assumes f: "\<And>b. Norm (Orientation b) = 1 \<Longrightarrow> Norm (Orientation (f b)) = 1"
  shows "Norm (Orientation (bodies q)) = 1 \<Longrightarrow>
         Norm (Orientation (for_each_body f ps bodies q)) = 1"
  unfolding for_each_body_def
proof (induction ps arbitrary: bodies)
  case Nil
  then show ?case by simp
next
  case (Cons p ps)
  have "Norm (Orientation ((bodies(p := f (bodies p))) q)) = 1"
    using Cons.prems f by auto
  from Cons.IH [of "bodies(p := f (bodies p))", OF this] show ?case by simp
qed


lemma ActivateInactiveBodies_Orientation:
  "ActivateInactiveBodies bodies c = Inr bodies' \<Longrightarrow>
   Orientation (bodies' q) = Orientation (bodies q)"
  by (auto simp add: ActivateInactiveBodies_def Activate_Orientation
      split: option.splits if_splits)

lemma ImpulseTransfer_Orientation:
  "ImpulseTransfer u bodies c = Inr (bodies', V_jolt, W_jolt) \<Longrightarrow>
   Orientation (bodies' q) = Orientation (bodies q)"
  by (auto simp add: ImpulseTransfer_def bindE_def Let_def
      split: sum.splits option.splits)

lemma ImpulseTransfers_iteration_Orientation:
  "ImpulseTransfers_iteration u h eps (r, bodies) = Inr (Some (r', bodies')) \<Longrightarrow>
   Orientation (bodies' q) = Orientation (bodies q)"
  by (auto simp add: ImpulseTransfers_iteration_def bindE_def Let_def
      split: sum.splits option.splits prod.splits
      dest!: ImpulseTransfer_Orientation [where q = q]
             ActivateInactiveBodies_Orientation [where q = q])


lemma ImpulseTransfers_loop_Orientation:
  "snd (ImpulseTransfers_loop u h eps iteration maxIterations (r, bodies)) = Inr (r', bodies') \<Longrightarrow>
   Orientation (bodies' q) = Orientation (bodies q)"
proof (induction u h eps iteration maxIterations "(r, bodies)" arbitrary: r bodies
       rule: ImpulseTransfers_loop.induct)
  case (1 u h eps iteration maxIterations)
  show ?case
  proof (cases "iteration < maxIterations")
    case False
    then show ?thesis using "1.prems"
      by (simp add: ImpulseTransfers_loop.simps [of u h eps iteration])
  next
    case True
    show ?thesis
    proof (cases "ImpulseTransfers_iteration u h eps (r, bodies)")
      case (Inl e)
      then show ?thesis using True "1.prems"
        by (simp add: ImpulseTransfers_loop.simps [of u h eps iteration])
    next
      case (Inr x)
      show ?thesis
      proof (cases x)
        case None
        then show ?thesis using True Inr "1.prems"
          by (simp add: ImpulseTransfers_loop.simps [of u h eps iteration])
      next
        case (Some s')
        obtain r1 bodies1 where s': "s' = (r1, bodies1)" by (cases s')
        have it: "ImpulseTransfers_iteration u h eps (r, bodies) = Inr (Some (r1, bodies1))"
          using Inr Some s' by simp
        have rec: "snd (ImpulseTransfers_loop u h eps (iteration + 1) maxIterations (r1, bodies1))
                     = Inr (r', bodies')"
          using True Inr Some s' "1.prems"
          by (simp add: ImpulseTransfers_loop.simps [of u h eps iteration])
        have xs: "x = Some (r1, bodies1)" using Some s' by simp
        have "Orientation (bodies' q) = Orientation (bodies1 q)"
          using "1.hyps" [OF True Inr xs rec] .
        then show ?thesis using ImpulseTransfers_iteration_Orientation [OF it, of q] by simp
      qed
    qed
  qed
qed

lemma ImpulseTransfers_Orientation:
  assumes "snd (ImpulseTransfers u h maxIterations eps (r, bodies)) = Inr (r', bodies')"
  shows "Orientation (bodies' q) = Orientation (bodies q)"
proof (cases "CollisionCount r = 0")
  case True
  then show ?thesis using assms by (simp add: ImpulseTransfers_def)
next
  case False
  then obtain e m where
    "snd (ImpulseTransfers_loop u h e 0 m (r, bodies)) = Inr (r', bodies')"
    using assms by (simp add: ImpulseTransfers_def Let_def del: ImpulseTransfers_loop.simps)
  then show ?thesis by (rule ImpulseTransfers_loop_Orientation)
qed

lemma PositionProjection_body_unit:
  "PositionProjection_body u c relaxation tot first p rp I ang bodies = Inr (bodies', X, Q) \<Longrightarrow>
   Norm (Orientation (bodies q)) = 1 \<Longrightarrow> Norm (Orientation (bodies' q)) = 1"
  by (auto simp add: PositionProjection_body_def bindE_def Let_def
      CalculateDerivedQuantities_Orientation Normalize_unit
      split: sum.splits if_splits)

lemma PositionProjection_unit:
  assumes "PositionProjection u relaxation bodies c = Inr (bodies', X_jolt, Q_jolt)"
    and "Norm (Orientation (bodies q)) = 1"
  shows "Norm (Orientation (bodies' q)) = 1"
  using assms unfolding PositionProjection_def Let_def bindE_def
  by (auto split: sum.splits prod.splits option.splits
      dest!: PositionProjection_body_unit [where q = q])


lemma PositionProjections_iteration_unit:
  assumes "PositionProjections_iteration u eps (r, bodies) = Inr (Some (r', bodies'))"
    and "Norm (Orientation (bodies q)) = 1"
  shows "Norm (Orientation (bodies' q)) = 1"
  using assms unfolding PositionProjections_iteration_def Let_def bindE_def
  by (auto split: sum.splits prod.splits option.splits
      dest!: ActivateInactiveBodies_Orientation [where q = q]
      dest: PositionProjection_unit [where q = q])

lemma PositionProjections_loop_unit:
  "snd (PositionProjections_loop u eps iteration maxIterations (r, bodies)) = Inr (r', bodies') \<Longrightarrow>
   Norm (Orientation (bodies q)) = 1 \<Longrightarrow> Norm (Orientation (bodies' q)) = 1"
proof (induction u eps iteration maxIterations "(r, bodies)" arbitrary: r bodies
       rule: PositionProjections_loop.induct)
  case (1 u eps iteration maxIterations)
  show ?case
  proof (cases "iteration < maxIterations")
    case False
    then show ?thesis using "1.prems"
      by (simp add: PositionProjections_loop.simps [of u eps iteration])
  next
    case True
    show ?thesis
    proof (cases "PositionProjections_iteration u eps (r, bodies)")
      case (Inl e)
      then show ?thesis using True "1.prems"
        by (simp add: PositionProjections_loop.simps [of u eps iteration])
    next
      case (Inr x)
      show ?thesis
      proof (cases x)
        case None
        then show ?thesis using True Inr "1.prems"
          by (simp add: PositionProjections_loop.simps [of u eps iteration])
      next
        case (Some s')
        obtain r1 bodies1 where s': "s' = (r1, bodies1)" by (cases s')
        have it: "PositionProjections_iteration u eps (r, bodies) = Inr (Some (r1, bodies1))"
          using Inr Some s' by simp
        have rec: "snd (PositionProjections_loop u eps (iteration + 1) maxIterations (r1, bodies1))
                     = Inr (r', bodies')"
          using True Inr Some s' "1.prems"(1)
          by (simp add: PositionProjections_loop.simps [of u eps iteration])
        have xs: "x = Some (r1, bodies1)" using Some s' by simp
        have u1: "Norm (Orientation (bodies1 q)) = 1"
          using PositionProjections_iteration_unit [OF it "1.prems"(2)] .
        show ?thesis using "1.hyps" [OF True Inr xs rec u1] .
      qed
    qed
  qed
qed

lemma PositionProjections_unit:
  assumes "snd (PositionProjections u maxIterations eps (r, bodies)) = Inr (r', bodies')"
    and "Norm (Orientation (bodies q)) = 1"
  shows "Norm (Orientation (bodies' q)) = 1"
proof (cases "CollisionCount r = 0")
  case True
  then show ?thesis using assms by (simp add: PositionProjections_def)
next
  case False
  then obtain e m where
    "snd (PositionProjections_loop u e 0 m (r, bodies)) = Inr (r', bodies')"
    using assms(1) by (simp add: PositionProjections_def Let_def del: PositionProjections_loop.simps)
  then show ?thesis using assms(2) by (rule PositionProjections_loop_unit)
qed

lemma World_SolveODE_unit:
  assumes run: "World_SolveODE cc u h (w, bodies) = Inr (w', bodies')"
    and unit: "Norm (Orientation (bodies q)) = 1"
  shows "Norm (Orientation (bodies' q)) = 1"
proof -
  from run obtain ps where ps: "RigidBodies w = Inr ps"
    by (auto simp add: World_SolveODE_def bindE_Inr_iff)
  define bodies2 where
    "bodies2 = for_each_body (RigidBody_SolveODE u h) ps
                 (for_each_body (AddGravity (Gravity w)) ps bodies)"
  have u2: "Norm (Orientation (bodies2 q)) = 1"
    unfolding bodies2_def
    by (intro for_each_body_unit RigidBody_SolveODE_unit)
       (simp_all add: AddGravity_Orientation unit)
  from run ps obtain r2 r3 bodies3 r4 bodies4 where
    it: "snd (ImpulseTransfers u h 0 0.01 (r2, bodies2)) = Inr (r3, bodies3)"
    and pp: "snd (PositionProjections u 0 0.01 (r3, bodies3)) = Inr (r4, bodies4)"
    and res: "bodies' = for_each_body ClearAccumulators ps bodies4"
    unfolding World_SolveODE_def bodies2_def
    by (auto simp add: bindE_Inr_iff Let_def)
  have u3: "Norm (Orientation (bodies3 q)) = 1"
    using ImpulseTransfers_Orientation [OF it, of q] u2 by simp
  have u4: "Norm (Orientation (bodies4 q)) = 1"
    using PositionProjections_unit [OF pp u3] .
  show ?thesis unfolding res
    by (intro for_each_body_unit) (simp_all add: ClearAccumulators_Orientation u4)
qed

lemma World_steps_unit:
  "World_steps cc u hs (w, bodies) = Inr (w', bodies') \<Longrightarrow>
   Norm (Orientation (bodies q)) = 1 \<Longrightarrow> Norm (Orientation (bodies' q)) = 1"
proof (induction hs arbitrary: w bodies)
  case Nil
  then show ?case by simp
next
  case (Cons h hs)
  from Cons.prems(1) obtain w1 bodies1 where
    s1: "World_SolveODE cc u h (w, bodies) = Inr (w1, bodies1)"
    and s2: "World_steps cc u hs (w1, bodies1) = Inr (w', bodies')"
    by (auto simp add: bindE_Inr_iff)
  have "Norm (Orientation (bodies1 q)) = 1"
    using World_SolveODE_unit [OF s1 Cons.prems(2)] .
  from Cons.IH [OF s2 this] show ?case .
qed

text \<open>
  Every step that runs through (no division by zero, no null body dereferenced, no
  access outside an array) keeps a unit orientation a unit quaternion: an integrated
  body and a body rotated by a position projection are normalised by
  \<^verbatim>\<open>CalculateDerivedQuantities\<close>, and nothing else assigns an orientation.  A body
  set up by \<^verbatim>\<open>Set_XQVW\<close> starts with a unit orientation.
\<close>

lemma World_steps_unit_orientation:
  assumes "Orientation (bodies p) = Orientation (Set_XQVW u0 X Q V W b0)"
    and "World_steps cc u hs (w, bodies) = Inr (w', bodies')"
  shows "Norm (Orientation (bodies' p)) = 1 \<and> \<bar>Norm (Orientation (bodies' p)) - 1\<bar> \<le> 1 / 10 ^ 9"
proof -
  have "Norm (Orientation (bodies p)) = 1"
    by (simp add: assms(1) Set_XQVW_def CalculateDerivedQuantities_Orientation Normalize_unit)
  from World_steps_unit [OF assms(2) this] show ?thesis by simp
qed


text \<open>An example: two steps of a world with one falling, spinning ball.\<close>

lemma World_steps_unit_orientation_example:
  "\<exists>w' bodies'.
     World_steps
       \<lparr> Cuboid_Check_Sphere = (\<lambda>bodies A B owner. Inr (0, owner)),
         Cuboid_Check_Cuboid = (\<lambda>bodies A B owner. Inr (0, owner)),
         Cuboid_Check_HalfSpace = (\<lambda>bodies A B owner. Inr (0, owner)) \<rparr>
       QTensor_Zero [1 / 100, 1 / 50]
       (\<lparr> ObjectCount = 1, Object = [Sphere (Some 0) 1],
          Gravity = Quat 0 0 (- 981 / 100) 0, Time = 0, TimeStepCount = 0,
          TotalKineticEnergy = 0, TotalPotentialEnergy = 0,
          TotalLinearMomentum = Quaternion_zero, W_TotalAngularMomentum = Quaternion_zero,
          W_Collisions = CollisionResolver_new [Collision_static] 1 \<rparr>,
        \<lambda>_. Activate (Set_XQVW QTensor_Zero (Quat 0 0 10 0) (Quat 2 0 0 0)
                          (Quat 0 1 0 0) (Quat 0 0 0 1) (SetupMass 1 RigidBody_new)))
       = Inr (w', bodies') \<and>
     Norm (Orientation (bodies' 0)) = 1"
proof -
  let ?cc = "\<lparr> Cuboid_Check_Sphere = (\<lambda>bodies A B owner. Inr (0, owner)),
         Cuboid_Check_Cuboid = (\<lambda>bodies A B owner. Inr (0, owner)),
         Cuboid_Check_HalfSpace = (\<lambda>bodies A B owner. Inr (0, owner)) \<rparr>"
  let ?b = "Set_XQVW QTensor_Zero (Quat 0 0 10 0) (Quat 2 0 0 0)
                          (Quat 0 1 0 0) (Quat 0 0 0 1) (SetupMass 1 RigidBody_new)"
  let ?w = "\<lparr> ObjectCount = 1, Object = [Sphere (Some 0) 1],
          Gravity = Quat 0 0 (- 981 / 100) 0, Time = 0, TimeStepCount = 0,
          TotalKineticEnergy = 0, TotalPotentialEnergy = 0,
          TotalLinearMomentum = Quaternion_zero, W_TotalAngularMomentum = Quaternion_zero,
          W_Collisions = CollisionResolver_new [Collision_static] 1 \<rparr>"
  have "\<exists>res. World_steps ?cc QTensor_Zero [1 / 100, 1 / 50] (?w, \<lambda>_. Activate ?b) = Inr res"
    by (simp add: World_SolveODE_def RigidBodies_def List.map_filter_simps DetectAll_def
        bindE_def Let_def Totals_def Initialize_def CollisionResolver_new_def
        CollisionResolver_UpdateDerivedQuantities_def registered_def set_registered_def
        ImpulseTransfers_def PositionProjections_def for_each_body_def)
  then obtain w' bodies' where
    run: "World_steps ?cc QTensor_Zero [1 / 100, 1 / 50] (?w, \<lambda>_. Activate ?b) = Inr (w', bodies')"
    by (metis surj_pair)
  have init: "Orientation ((\<lambda>_ :: nat. Activate ?b) 0) = Orientation ?b"
    by (simp add: Activate_def)
  from World_steps_unit_orientation [OF init run] run show ?thesis by blast
qed


subsection \<open>A step with two balls at the same position\<close>

lemma q_sub_self: "q_sub p p = Quat 0 0 0 0"
  by (simp add: q_sub_def)

lemma Sphere_Check_Sphere_same_position:
  assumes "bodies 0 = bodies 1"
  shows "Sphere_Check_Sphere bodies (Sphere (Some 0) 1) (Sphere (Some 1) 1)
           (CollisionResolver_new [Collision_static] 1) = Inl DivisionByZero"
proof -
  have "Geometry_Position bodies (Sphere (Some 0) 1) = Geometry_Position bodies (Sphere (Some 1) 1)"
    using assms by (simp add: Geometry_Position_def)
  then show ?thesis
    by (simp add: Sphere_Check_Sphere_def HasSpaceForMoreContacts_def CollisionResolver_new_def
        q_sub_self ImNorm_def ImSquaredNorm_def fdiv_def bindE_def Let_def)
qed

lemma Totals_fields:
  "Object (Totals ps bodies w) = Object w \<and> ObjectCount (Totals ps bodies w) = ObjectCount w \<and>
   W_Collisions (Totals ps bodies w) = W_Collisions w"
proof -
  have "Object (fold (\<lambda>p v. v\<lparr>
             TotalKineticEnergy := TotalKineticEnergy v + KineticEnergy (bodies p),
             TotalPotentialEnergy := TotalPotentialEnergy v + PotentialEnergy (bodies p),
             TotalLinearMomentum := q_add (TotalLinearMomentum v) (LinearMomentum (bodies p)),
             W_TotalAngularMomentum :=
               q_add (W_TotalAngularMomentum v) (TotalAngularMomentum (bodies p)) \<rparr>) ps v)
          = Object v \<and>
        ObjectCount (fold (\<lambda>p v. v\<lparr>
             TotalKineticEnergy := TotalKineticEnergy v + KineticEnergy (bodies p),
             TotalPotentialEnergy := TotalPotentialEnergy v + PotentialEnergy (bodies p),
             TotalLinearMomentum := q_add (TotalLinearMomentum v) (LinearMomentum (bodies p)),
             W_TotalAngularMomentum :=
               q_add (W_TotalAngularMomentum v) (TotalAngularMomentum (bodies p)) \<rparr>) ps v)
          = ObjectCount v \<and>
        W_Collisions (fold (\<lambda>p v. v\<lparr>
             TotalKineticEnergy := TotalKineticEnergy v + KineticEnergy (bodies p),
             TotalPotentialEnergy := TotalPotentialEnergy v + PotentialEnergy (bodies p),
             TotalLinearMomentum := q_add (TotalLinearMomentum v) (LinearMomentum (bodies p)),
             W_TotalAngularMomentum :=
               q_add (W_TotalAngularMomentum v) (TotalAngularMomentum (bodies p)) \<rparr>) ps v)
          = W_Collisions v" for v :: World
    by (induction ps arbitrary: v) simp_all
  then show ?thesis by (simp add: Totals_def)
qed

lemma World_SolveODE_detect_Inl:
  assumes "RigidBodies w = Inr ps"
    and "DetectAll cc (for_each_body (RigidBody_SolveODE u h) ps
                         (for_each_body (AddGravity (Gravity w)) ps bodies))
           w (Initialize (W_Collisions w)) = Inl e"
  shows "World_SolveODE cc u h (w, bodies) = Inl e"
proof -
  have d: "DetectAll cc b (Totals ps b' (w\<lparr> TimeStepCount := n, Time := t \<rparr>)) r
             = DetectAll cc b w r" for b b' n t r
    by (simp add: DetectAll_def Totals_fields)
  have c: "W_Collisions (Totals ps b' (w\<lparr> TimeStepCount := n, Time := t \<rparr>)) = W_Collisions w"
    for b' n t
    by (simp add: Totals_fields)
  show ?thesis
    using assms by (simp add: World_SolveODE_def bindE_def Let_def d c)
qed

text \<open>
  C4 at a failing input.  Two balls of radius 1 and mass 1, each set up as the
  \<^verbatim>\<open>Ball\<close> constructor does (\<^verbatim>\<open>SetupMass\<close>, \<^verbatim>\<open>Set_XQVW\<close>, \<^verbatim>\<open>Activate\<close>) at the same
  position, under gravity.  They fall together, the sphere detector finds the
  distance 0 below the sum of the radii and divides by it: the step leaves exact
  arithmetic.  (In IEEE arithmetic the contact normal is NaN, the position
  projection of this contact adds a NaN jolt to both orientations, and
  \<^verbatim>\<open>Normalize\<close>, whose test \<^verbatim>\<open>norm == 0\<close> is false for a NaN, leaves them NaN.)
\<close>

theorem World_SolveODE_coincident_spheres:
  "World_SolveODE
     \<lparr> Cuboid_Check_Sphere = (\<lambda>bodies A B owner. Inr (0, owner)),
       Cuboid_Check_Cuboid = (\<lambda>bodies A B owner. Inr (0, owner)),
       Cuboid_Check_HalfSpace = (\<lambda>bodies A B owner. Inr (0, owner)) \<rparr>
     QTensor_Zero (1 / 100)
     (\<lparr> ObjectCount = 2, Object = [Sphere (Some 0) 1, Sphere (Some 1) 1],
        Gravity = Quat 0 0 (- 981 / 100) 0, Time = 0, TimeStepCount = 0,
        TotalKineticEnergy = 0, TotalPotentialEnergy = 0,
        TotalLinearMomentum = Quaternion_zero, W_TotalAngularMomentum = Quaternion_zero,
        W_Collisions = CollisionResolver_new [Collision_static] 1 \<rparr>,
      \<lambda>_. Activate (Set_XQVW QTensor_Zero (Quat 0 0 10 0) (Quat 1 0 0 0)
                        Quaternion_zero Quaternion_zero (SetupMass 1 RigidBody_new)))
   = Inl DivisionByZero"
proof -
  let ?cc = "\<lparr> Cuboid_Check_Sphere = (\<lambda>bodies A B owner. Inr (0, owner)),
       Cuboid_Check_Cuboid = (\<lambda>bodies A B owner. Inr (0, owner)),
       Cuboid_Check_HalfSpace = (\<lambda>bodies A B owner. Inr (0, owner)) \<rparr>"
  let ?b = "Activate (Set_XQVW QTensor_Zero (Quat 0 0 10 0) (Quat 1 0 0 0)
                        Quaternion_zero Quaternion_zero (SetupMass 1 RigidBody_new))"
  let ?g = "Quat 0 0 (- 981 / 100) 0"
  let ?w = "\<lparr> ObjectCount = 2, Object = [Sphere (Some 0) 1, Sphere (Some 1) 1],
        Gravity = ?g, Time = 0, TimeStepCount = 0,
        TotalKineticEnergy = 0, TotalPotentialEnergy = 0,
        TotalLinearMomentum = Quaternion_zero, W_TotalAngularMomentum = Quaternion_zero,
        W_Collisions = CollisionResolver_new [Collision_static] 1 \<rparr>"
  define bodies2 where "bodies2 = for_each_body (RigidBody_SolveODE QTensor_Zero (1 / 100)) [0, 1]
                   (for_each_body (AddGravity (Gravity ?w)) [0, 1] (\<lambda>_. ?b))"
  have ps: "RigidBodies ?w = Inr [0, 1]"
    by (simp add: RigidBodies_def List.map_filter_simps)
  have same: "bodies2 0 = bodies2 1"
    by (simp add: bodies2_def for_each_body_def)
  have check: "Sphere_Check_Sphere bodies2 (Sphere (Some 0) 1) (Sphere (Some 1) 1)
                 (CollisionResolver_new [Collision_static] 1) = Inl DivisionByZero"
    by (rule Sphere_Check_Sphere_same_position [OF same])
  have init: "Initialize (W_Collisions ?w) = CollisionResolver_new [Collision_static] 1"
    by (simp add: Initialize_def CollisionResolver_new_def)
  have space: "HasSpaceForMoreContacts (CollisionResolver_new [Collision_static] 1)"
    by (simp add: HasSpaceForMoreContacts_def CollisionResolver_new_def)
  have pairs: "concat (map (\<lambda>i. map (\<lambda>j. (i, j)) [i + 1 ..< 2]) [0 ..< 2]) = [(0 :: nat, 1 :: nat)]"
    by (simp add: upt_rec)
  have det: "DetectAll ?cc bodies2 ?w (Initialize (W_Collisions ?w)) = Inl DivisionByZero"
    unfolding init DetectAll_def
    using check space pairs
    by (simp add: Let_def Detect_def discard_count_def bindE_def)
  show ?thesis
    by (rule World_SolveODE_detect_Inl [OF ps det [unfolded bodies2_def]])
qed

end
